theory Spec2Isabelle
  imports Complex_Main
begin

section \<open>Python values and the library functions the client calls\<close>

text \<open>
  A Python float: a finite double, given by the real number it denotes, one of the two
  infinities, or NaN. \<open>json.loads\<close> yields all four kinds (it reads \<open>NaN\<close>, \<open>Infinity\<close>
  and \<open>-Infinity\<close>).
\<close>

datatype pyfloat = Fin real | PosInf | NegInf | NaN

text \<open>\<open>a == b\<close> on floats: NaN equals nothing, itself included.\<close>

definition float_eq :: "pyfloat \<Rightarrow> pyfloat \<Rightarrow> bool" where
  "float_eq a b = (a = b \<and> a \<noteq> NaN)"

text \<open>
  The client (MyEldom.py) works on decoded JSON: \<open>None\<close>, booleans, integers, floats,
  strings, lists and dictionaries.
\<close>

datatype json =
    JNull
  | JBool bool
  | JInt int
  | JFloat pyfloat
  | JStr string
  | JArr "json list"
  | JObj "(string \<times> json) list"

datatype error =
  KeyError | TypeError | ValueError | AttributeError | JSONDecodeError | OverflowError

datatype datetime = Datetime nat nat nat nat nat nat

text \<open>
  Functions of the Python standard library that the client calls and that are not code of
  the repository. \<open>None\<close> stands for the exception the function raises on that input
  (\<open>JSONDecodeError\<close> for \<open>json.loads\<close>, \<open>ValueError\<close> for \<open>float\<close> on a string and for
  \<open>datetime.strptime\<close>). \<open>str_of\<close> is \<open>str(x)\<close>, which is also what an f-string prints.
  \<open>float_round\<close> is the rounding of float arithmetic: the double nearest to a real
  number, an infinity when the number is beyond the range of the doubles.
\<close>

record pylib =
  json_loads :: "string \<Rightarrow> json option"
  json_dumps :: "json \<Rightarrow> string"
  float_of_str :: "string \<Rightarrow> pyfloat option"
  float_round :: "real \<Rightarrow> pyfloat"
  strptime :: "string \<Rightarrow> string \<Rightarrow> datetime option"
  str_of :: "json \<Rightarrow> string"

text \<open>Truth value of an object, as \<open>if x:\<close> tests it.\<close>

fun truthy :: "json \<Rightarrow> bool" where
  "truthy JNull = False"
| "truthy (JBool b) = b"
| "truthy (JInt i) = (i \<noteq> 0)"
| "truthy (JFloat r) = (r \<noteq> Fin 0)"
| "truthy (JStr s) = (s \<noteq> [])"
| "truthy (JArr xs) = (xs \<noteq> [])"
| "truthy (JObj kv) = (kv \<noteq> [])"

text \<open>\<open>d.get(k)\<close> on a dictionary: the value, or \<open>None\<close> when the key is missing.\<close>

definition dget :: "(string \<times> json) list \<Rightarrow> string \<Rightarrow> json" where
  "dget kv k = (case map_of kv k of None \<Rightarrow> JNull | Some v \<Rightarrow> v)"

text \<open>\<open>x[k]\<close> with a string key \<open>k\<close>.\<close>

fun subscript :: "json \<Rightarrow> string \<Rightarrow> error + json" where
  "subscript (JObj kv) k = (case map_of kv k of None \<Rightarrow> Inl KeyError | Some v \<Rightarrow> Inr v)"
| "subscript JNull k = Inl TypeError"
| "subscript (JBool b) k = Inl TypeError"
| "subscript (JInt i) k = Inl TypeError"
| "subscript (JFloat r) k = Inl TypeError"
| "subscript (JStr s) k = Inl TypeError"
| "subscript (JArr xs) k = Inl TypeError"

text \<open>\<open>sub in s\<close> on two strings: \<open>sub\<close> occurs in \<open>s\<close> as a contiguous run.\<close>

fun str_contains :: "string \<Rightarrow> string \<Rightarrow> bool" where
  "str_contains sub [] = (sub = [])"
| "str_contains sub (c # cs) = (take (length sub) (c # cs) = sub \<or> str_contains sub cs)"

text \<open>
  \<open>k in x\<close> with a string \<open>k\<close>: a key test on a dictionary, a substring test on a string,
  an element test on a list, \<open>TypeError\<close> on anything else.
\<close>

fun contains :: "string \<Rightarrow> json \<Rightarrow> error + bool" where
  "contains k (JObj kv) = Inr (map_of kv k \<noteq> None)"
| "contains k (JStr s) = Inr (str_contains k s)"
| "contains k (JArr xs) = Inr (JStr k \<in> set xs)"
| "contains k JNull = Inl TypeError"
| "contains k (JBool b) = Inl TypeError"
| "contains k (JInt i) = Inl TypeError"
| "contains k (JFloat r) = Inl TypeError"

text \<open>
  \<open>a + b\<close> on floats: NaN if an operand is NaN or the operands are infinities of opposite
  sign, else the infinity if an operand is one, else the exact sum rounded.
\<close>

fun float_add :: "pylib \<Rightarrow> pyfloat \<Rightarrow> pyfloat \<Rightarrow> pyfloat" where
  "float_add lib NaN b = NaN"
| "float_add lib a NaN = NaN"
| "float_add lib PosInf NegInf = NaN"
| "float_add lib NegInf PosInf = NaN"
| "float_add lib PosInf b = PosInf"
| "float_add lib a PosInf = PosInf"
| "float_add lib NegInf b = NegInf"
| "float_add lib a NegInf = NegInf"
| "float_add lib (Fin x) (Fin y) = float_round lib (x + y)"

text \<open>
  \<open>float(x)\<close>. An integer is rounded to the nearest double; one that rounds to
  \<open>2 ^ 1024\<close> or beyond raises \<open>OverflowError\<close>.
\<close>

definition FLOAT_INT_LIMIT :: int where
  "FLOAT_INT_LIMIT = 2 ^ 1024 - 2 ^ 970"

fun py_float :: "pylib \<Rightarrow> json \<Rightarrow> error + pyfloat" where
  "py_float lib JNull = Inl TypeError"
| "py_float lib (JBool b) = Inr (if b then Fin 1 else Fin 0)"
| "py_float lib (JInt i) =
     (if \<bar>i\<bar> < FLOAT_INT_LIMIT then Inr (float_round lib (real_of_int i))
      else Inl OverflowError)"
| "py_float lib (JFloat r) = Inr r"
| "py_float lib (JStr s) =
     (case float_of_str lib s of None \<Rightarrow> Inl ValueError | Some r \<Rightarrow> Inr r)"
| "py_float lib (JArr xs) = Inl TypeError"
| "py_float lib (JObj kv) = Inl TypeError"

text \<open>\<open>json.loads(x)\<close>: \<open>x\<close> has to be a string.\<close>

fun loads :: "pylib \<Rightarrow> json \<Rightarrow> error + json" where
  "loads lib (JStr s) =
     (case json_loads lib s of None \<Rightarrow> Inl JSONDecodeError | Some j \<Rightarrow> Inr j)"
| "loads lib JNull = Inl TypeError"
| "loads lib (JBool b) = Inl TypeError"
| "loads lib (JInt i) = Inl TypeError"
| "loads lib (JFloat r) = Inl TypeError"
| "loads lib (JArr xs) = Inl TypeError"
| "loads lib (JObj kv) = Inl TypeError"

text \<open>
  \<open>datetime.strptime(x[:19], "%Y-%m-%dT%H:%M:%S")\<close>: the slice exists on strings and
  lists only, and \<open>strptime\<close> takes a string only.
\<close>

definition TIME_FORMAT :: string where
  "TIME_FORMAT = ''%Y-%m-%dT%H:%M:%S''"

fun parse_refresh_date :: "pylib \<Rightarrow> json \<Rightarrow> error + datetime" where
  "parse_refresh_date lib (JStr s) =
     (case strptime lib (take 19 s) TIME_FORMAT of
        None \<Rightarrow> Inl ValueError
      | Some t \<Rightarrow> Inr t)"
| "parse_refresh_date lib JNull = Inl TypeError"
| "parse_refresh_date lib (JBool b) = Inl TypeError"
| "parse_refresh_date lib (JInt i) = Inl TypeError"
| "parse_refresh_date lib (JFloat r) = Inl TypeError"
| "parse_refresh_date lib (JArr xs) = Inl TypeError"
| "parse_refresh_date lib (JObj kv) = Inl TypeError"

text \<open>
  \<open>a == b\<close> on hashable values: numbers (booleans included) compare by value, an
  integer with a float exactly; every other value with its own kind only.
\<close>

fun num_val :: "json \<Rightarrow> pyfloat option" where
  "num_val (JBool b) = Some (if b then Fin 1 else Fin 0)"
| "num_val (JInt i) = Some (Fin (real_of_int i))"
| "num_val (JFloat r) = Some r"
| "num_val JNull = None"
| "num_val (JStr s) = None"
| "num_val (JArr xs) = None"
| "num_val (JObj kv) = None"

definition py_eq :: "json \<Rightarrow> json \<Rightarrow> bool" where
  "py_eq a b =
     (case num_val a of
        Some x \<Rightarrow> (case num_val b of Some y \<Rightarrow> float_eq x y | None \<Rightarrow> False)
      | None \<Rightarrow> (case num_val b of Some y \<Rightarrow> False | None \<Rightarrow> a = b))"

text \<open>
  Two keys of a dictionary are the same key when they are the same object or equal by
  \<open>==\<close>. The NaN that \<open>json.loads\<close> returns is one object each time, so it is the same
  key as itself though it is not equal to itself.
\<close>

definition key_eq :: "json \<Rightarrow> json \<Rightarrow> bool" where
  "key_eq a b = (py_eq a b \<or> (a = JFloat NaN \<and> b = JFloat NaN))"

fun hashable :: "json \<Rightarrow> bool" where
  "hashable (JArr xs) = False"
| "hashable (JObj kv) = False"
| "hashable JNull = True"
| "hashable (JBool b) = True"
| "hashable (JInt i) = True"
| "hashable (JFloat r) = True"
| "hashable (JStr s) = True"

section \<open>Device records\<close>

text \<open>
  The dataclasses \<open>EldomDevice\<close> and \<open>Heater\<close>. A field that the code fills with whatever
  the server sent has type \<open>json\<close> (\<open>JNull\<close> is \<open>None\<close>); a field that only ever holds the
  result of \<open>float\<close>, \<open>str\<close> or \<open>strptime\<close> has that type. \<open>swVersion\<close> is not a declared
  field: it is the attribute that discovery creates on the object (\<open>None\<close>: not created).
\<close>

record EldomDevice =
  hw_version :: "string option"
  sw_version :: "string option"
  id' :: json
  last_updated :: "datetime option"
  name :: json
  real_device_id :: json
  available :: "bool option"

record Heater = EldomDevice +
  raw_data :: "string option"
  state :: json
  power' :: json
  current_temp :: json
  set_temp :: "pyfloat option"
  pcb_temp :: "pyfloat option"
  open_window :: json
  energy_day :: "pyfloat option"
  energy_night :: "pyfloat option"
  energy_total :: "pyfloat option"
  swVersion :: "json option"

definition new_Heater :: Heater where
  "new_Heater =
     \<lparr>hw_version = None, sw_version = None, id' = JNull, last_updated = None,
      name = JNull, real_device_id = JNull, available = None,
      raw_data = None, state = JNull, power' = JNull, current_temp = JNull,
      set_temp = None, pcb_temp = None, open_window = JNull,
      energy_day = None, energy_night = None, energy_total = None,
      swVersion = None\<rparr>"

section \<open>Transport\<close>

text \<open>
  The web session. A request is answered by a timeout, by a client error, or by a
  response with a status and a body (the body is taken as read). The server is a function
  of the requests sent so far and of the request itself, so it can answer the same request
  differently each time; the state of the session is the list of requests sent, oldest
  first.
\<close>

datatype http_method = GET | POST

datatype body = Form "(string \<times> string) list" | Data string

record request =
  meth :: http_method
  url :: string
  data :: body

datatype outcome = Timeout | ClientError | Response nat string

type_synonym server = "request list \<Rightarrow> request \<Rightarrow> outcome"

text \<open>The outcomes that \<open>except (asyncio.TimeoutError, aiohttp.ClientError)\<close> catches.\<close>

fun transport_failure :: "outcome \<Rightarrow> bool" where
  "transport_failure Timeout = True"
| "transport_failure ClientError = True"
| "transport_failure (Response status text) = False"

definition API_ENDPOINT_1 :: string where
  "API_ENDPOINT_1 = ''https://myeldom.com''"

definition ELDOM_DEVICE_TYPE_HEATER :: int where
  "ELDOM_DEVICE_TYPE_HEATER = 4"

text \<open>
  The part of \<open>_get_request\<close> and \<open>_post_request\<close> after the response arrived: an empty
  body and a body that is not JSON both give \<open>None\<close>.
\<close>

definition decode_response :: "pylib \<Rightarrow> string \<Rightarrow> json" where
  "decode_response lib result =
     (if result = [] then JNull
      else (case json_loads lib result of None \<Rightarrow> JNull | Some d \<Rightarrow> d))"

definition get_req :: "pylib \<Rightarrow> string \<Rightarrow> json \<Rightarrow> request" where
  "get_req lib command payload =
     \<lparr>meth = GET, url = API_ENDPOINT_1 @ command, data = Data (json_dumps lib payload)\<rparr>"

definition post_req :: "pylib \<Rightarrow> string \<Rightarrow> json \<Rightarrow> request" where
  "post_req lib command payload =
     \<lparr>meth = POST, url = API_ENDPOINT_1 @ command, data = Data (json_dumps lib payload)\<rparr>"

text \<open>\<open>_get_request\<close>: a timeout is retried while \<open>retry\<close> is at least 1.\<close>

function get_request ::
  "pylib \<Rightarrow> server \<Rightarrow> request list \<Rightarrow> string \<Rightarrow> json \<Rightarrow> int \<Rightarrow> request list \<times> json" where
  "get_request lib srv sent command payload retry =
     (case srv sent (get_req lib command payload) of
        Timeout \<Rightarrow>
          if retry < 1 then (sent @ [get_req lib command payload], JNull)
          else get_request lib srv (sent @ [get_req lib command payload]) command payload (retry - 1)
      | ClientError \<Rightarrow> (sent @ [get_req lib command payload], JNull)
      | Response status result \<Rightarrow>
          (sent @ [get_req lib command payload], decode_response lib result))"
  by pat_completeness auto
termination
  by (relation "measure (\<lambda>(lib, srv, sent, command, payload, retry). nat retry)") auto

text \<open>\<open>_post_request\<close>: the retry after a timeout goes through \<open>_get_request\<close>.\<close>

definition post_request ::
  "pylib \<Rightarrow> server \<Rightarrow> request list \<Rightarrow> string \<Rightarrow> json \<Rightarrow> int \<Rightarrow> request list \<times> json" where
  "post_request lib srv sent command payload retry =
     (case srv sent (post_req lib command payload) of
        Timeout \<Rightarrow>
          if retry < 1 then (sent @ [post_req lib command payload], JNull)
          else get_request lib srv (sent @ [post_req lib command payload]) command payload (retry - 1)
      | ClientError \<Rightarrow> (sent @ [post_req lib command payload], JNull)
      | Response status result \<Rightarrow>
          (sent @ [post_req lib command payload], decode_response lib result))"

section \<open>Session: login\<close>

text \<open>
  The client object, with the fields the operations below read or write: the credentials
  and the registry \<open>heaters\<close>, a dictionary from \<open>realDeviceId\<close> to the heater, kept in
  insertion order as Python keeps it. The time of the last login attempt and the debug
  logging have no part in what these operations return and are left out.
\<close>

type_synonym registry = "(json \<times> Heater) list"

record MyEldom =
  email :: string
  password :: string
  heaters :: registry

definition login_req :: "MyEldom \<Rightarrow> request" where
  "login_req self =
     \<lparr>meth = POST, url = API_ENDPOINT_1 @ ''/Account/Login'',
      data = Form [(''Email'', email self), (''Password'', password self)]\<rparr>"

text \<open>
  \<open>_do_login\<close>: a timeout or a client error is retried while \<open>retry\<close> is at least 1; a
  response decides the login, status 302 being the success.
\<close>

function do_login :: "server \<Rightarrow> MyEldom \<Rightarrow> request list \<Rightarrow> int \<Rightarrow> request list \<times> bool" where
  "do_login srv self sent retry =
     (case srv sent (login_req self) of
        Timeout \<Rightarrow>
          if retry < 1 then (sent @ [login_req self], False)
          else do_login srv self (sent @ [login_req self]) (retry - 1)
      | ClientError \<Rightarrow>
          if retry < 1 then (sent @ [login_req self], False)
          else do_login srv self (sent @ [login_req self]) (retry - 1)
      | Response status text \<Rightarrow> (sent @ [login_req self], status = 302))"
  by pat_completeness auto
termination
  by (relation "measure (\<lambda>(srv, self, sent, retry). nat retry)") auto

definition connect :: "server \<Rightarrow> MyEldom \<Rightarrow> request list \<Rightarrow> int \<Rightarrow> request list \<times> bool" where
  "connect srv self sent retry =
     (case do_login srv self sent retry of
        (sent', ok) \<Rightarrow> if ok then (sent', True) else (sent', False))"

section \<open>Refreshing one heater\<close>

text \<open>
  The body of \<open>fetch_heater_data\<close> once the request returned something, in the order of
  the source and cut into its consecutive blocks. The heater is a mutable object, so when
  a statement raises, the assignments made before it stay: each block gives the heater as
  it is when the block ends, and the exception if there is one.
\<close>

text \<open>The last-refresh date and the availability flag (the final \<open>if\<close> of the body).\<close>

definition update_availability :: "pylib \<Rightarrow> (string \<times> json) list \<Rightarrow> Heater \<Rightarrow> Heater \<times> error option" where
  "update_availability lib status heater =
     (if truthy (dget status ''LastRefreshDate'') then
        (case parse_refresh_date lib (dget status ''LastRefreshDate'') of
           Inl e \<Rightarrow> (heater, Some e)
         | Inr ts \<Rightarrow> (heater\<lparr>last_updated := Some ts, available := Some True\<rparr>, None))
      else (heater\<lparr>available := Some False\<rparr>, None))"

text \<open>
  The energy counters: \<open>energy_day\<close>, \<open>energy_night\<close>, then
  \<open>energy_total = float(heater.energy_day) + float(heater.energy_night)\<close>, which reads
  back the two floats just stored and adds them as floats.
\<close>

definition update_energy :: "pylib \<Rightarrow> (string \<times> json) list \<Rightarrow> Heater \<Rightarrow> Heater \<times> error option" where
  "update_energy lib status heater =
     (case py_float lib (dget status ''EnergyD'') of
        Inl e \<Rightarrow> (heater, Some e)
      | Inr d \<Rightarrow>
          (case py_float lib (dget status ''EnergyN'') of
             Inl e \<Rightarrow> (heater\<lparr>energy_day := Some d\<rparr>, Some e)
           | Inr n \<Rightarrow>
               update_availability lib status
                 (heater\<lparr>energy_day := Some d, energy_night := Some n,
                         energy_total := Some (float_add lib d n)\<rparr>)))"

text \<open>
  The target temperature, the board temperature and the open-window flag. The test
  \<open>"TimerSTempA" in heater_data["objectJson"]\<close> is made on the undecoded string.
\<close>

definition update_temps ::
  "pylib \<Rightarrow> json \<Rightarrow> (string \<times> json) list \<Rightarrow> Heater \<Rightarrow> Heater \<times> error option" where
  "update_temps lib object_json status heater =
     (case contains ''TimerSTempA'' object_json of
        Inl e \<Rightarrow> (heater, Some e)
      | Inr timer \<Rightarrow>
          (case py_float lib (dget status (if timer then ''TimerSTempA'' else ''SetTemp'')) of
             Inl e \<Rightarrow> (heater, Some e)
           | Inr t \<Rightarrow>
               (case py_float lib (dget status ''PCBTemp'') of
                  Inl e \<Rightarrow> (heater\<lparr>set_temp := Some t\<rparr>, Some e)
                | Inr p \<Rightarrow>
                    update_energy lib status
                      (heater\<lparr>set_temp := Some t, pcb_temp := Some p,
                              open_window := dget status ''OpenWindow''\<rparr>))))"

text \<open>
  The first \<open>.get\<close> on the decoded status: only a dictionary has it. Then \<open>state\<close>,
  \<open>power\<close> and \<open>current_temp\<close>.
\<close>

fun update_status :: "pylib \<Rightarrow> json \<Rightarrow> json \<Rightarrow> Heater \<Rightarrow> Heater \<times> error option" where
  "update_status lib object_json (JObj status) heater =
     update_temps lib object_json status
       (heater\<lparr>state := dget status ''State'', power' := dget status ''Power'',
               current_temp := dget status ''AmbientTemp''\<rparr>)"
| "update_status lib object_json JNull heater = (heater, Some AttributeError)"
| "update_status lib object_json (JBool b) heater = (heater, Some AttributeError)"
| "update_status lib object_json (JInt i) heater = (heater, Some AttributeError)"
| "update_status lib object_json (JFloat r) heater = (heater, Some AttributeError)"
| "update_status lib object_json (JStr s) heater = (heater, Some AttributeError)"
| "update_status lib object_json (JArr xs) heater = (heater, Some AttributeError)"

text \<open>
  \<open>heater_status_json = json.loads(heater_data["objectJson"])\<close> and
  \<open>heater.raw_data = json.dumps(heater_status_json)\<close>, then the blocks above.
\<close>

definition update_heater :: "pylib \<Rightarrow> json \<Rightarrow> Heater \<Rightarrow> Heater \<times> error option" where
  "update_heater lib heater_data heater =
     (case subscript heater_data ''objectJson'' of
        Inl e \<Rightarrow> (heater, Some e)
      | Inr object_json \<Rightarrow>
          (case loads lib object_json of
             Inl e \<Rightarrow> (heater, Some e)
           | Inr heater_status_json \<Rightarrow>
               update_status lib object_json heater_status_json
                 (heater\<lparr>raw_data := Some (json_dumps lib heater_status_json)\<rparr>)))"

definition heater_command :: "pylib \<Rightarrow> Heater \<Rightarrow> string" where
  "heater_command lib heater = ''/api/panelconvector/'' @ str_of lib (id' heater)"

text \<open>
  \<open>fetch_heater_data\<close>: the requests sent, the heater afterwards, and either the exception
  that reaches the caller or the boolean returned.
\<close>

definition fetch_heater_data ::
  "pylib \<Rightarrow> server \<Rightarrow> request list \<Rightarrow> Heater \<Rightarrow> request list \<times> Heater \<times> (error + bool)" where
  "fetch_heater_data lib srv sent heater =
     (case get_request lib srv sent (heater_command lib heater) (JObj []) 3 of
        (sent', heater_data) \<Rightarrow>
          if heater_data \<noteq> JNull then
            (case update_heater lib heater_data heater of
               (heater', Some e) \<Rightarrow> (sent', heater', Inl e)
             | (heater', None) \<Rightarrow> (sent', heater', Inr True))
          else (sent', heater\<lparr>available := Some False\<rparr>, Inr False))"

section \<open>Commands\<close>

text \<open>
  The test \<open>resp and "status" in resp and resp["status"] is True\<close>, evaluated left to
  right; \<open>is True\<close> holds of the boolean \<open>True\<close> only.
\<close>

definition status_ok :: "json \<Rightarrow> error + bool" where
  "status_ok resp =
     (if \<not> truthy resp then Inr False
      else (case contains ''status'' resp of
              Inl e \<Rightarrow> Inl e
            | Inr present \<Rightarrow>
                if \<not> present then Inr False
                else (case subscript resp ''status'' of
                        Inl e \<Rightarrow> Inl e
                      | Inr v \<Rightarrow> Inr (v = JBool True))))"

definition set_temperature ::
  "pylib \<Rightarrow> server \<Rightarrow> request list \<Rightarrow> Heater \<Rightarrow> pyfloat \<Rightarrow> request list \<times> Heater \<times> (error + bool)" where
  "set_temperature lib srv sent heater temperature =
     (case post_request lib srv sent ''/api/panelconvector/setTemperature''
             (JObj [(''deviceId'', real_device_id heater), (''temperature'', JFloat temperature)]) 3 of
        (sent', resp) \<Rightarrow>
          (case status_ok resp of
             Inl e \<Rightarrow> (sent', heater, Inl e)
           | Inr ok \<Rightarrow>
               if ok then (sent', heater\<lparr>set_temp := Some temperature\<rparr>, Inr True)
               else (sent', heater, Inr False)))"

definition set_state ::
  "pylib \<Rightarrow> server \<Rightarrow> request list \<Rightarrow> Heater \<Rightarrow> int \<Rightarrow> request list \<times> Heater \<times> (error + bool)" where
  "set_state lib srv sent heater st =
     (case post_request lib srv sent ''/api/panelconvector/setState''
             (JObj [(''deviceId'', real_device_id heater), (''state'', JInt st)]) 3 of
        (sent', resp) \<Rightarrow>
          (case status_ok resp of
             Inl e \<Rightarrow> (sent', heater, Inl e)
           | Inr ok \<Rightarrow>
               if ok then (sent', heater, Inr True)
               else (sent', heater, Inr False)))"

section \<open>Discovery and refresh of all heaters\<close>

text \<open>
  The registry as a dictionary: \<open>reg_get\<close> is \<open>self.heaters.get(k)\<close>, \<open>reg_set\<close> is
  \<open>self.heaters[k] = h\<close>. \<open>reg_mutate\<close> is the effect of assigning to the fields of a
  heater that \<open>get\<close> returned: visible in the registry when the heater is in it.
\<close>

fun reg_get :: "registry \<Rightarrow> json \<Rightarrow> Heater option" where
  "reg_get [] k = None"
| "reg_get ((k', h') # r) k = (if key_eq k' k then Some h' else reg_get r k)"

fun reg_set :: "registry \<Rightarrow> json \<Rightarrow> Heater \<Rightarrow> registry" where
  "reg_set [] k h = [(k, h)]"
| "reg_set ((k', h') # r) k h =
     (if key_eq k' k then (k', h) # r else (k', h') # reg_set r k h)"

fun reg_mutate :: "registry \<Rightarrow> json \<Rightarrow> Heater \<Rightarrow> registry" where
  "reg_mutate [] k h = []"
| "reg_mutate ((k', h') # r) k h =
     (if key_eq k' k then (k', h) # r else (k', h') # reg_mutate r k h)"

text \<open>\<open>for device in device_list\<close>: what the loop iterates over.\<close>

fun py_iter :: "json \<Rightarrow> error + json list" where
  "py_iter (JArr xs) = Inr xs"
| "py_iter (JObj kv) = Inr (map (\<lambda>p. JStr (fst p)) kv)"
| "py_iter (JStr s) = Inr (map (\<lambda>c. JStr [c]) s)"
| "py_iter JNull = Inl TypeError"
| "py_iter (JBool b) = Inl TypeError"
| "py_iter (JInt i) = Inl TypeError"
| "py_iter (JFloat r) = Inl TypeError"

text \<open>
  One round of the discovery loop. The last assignment to the heater object is
  \<open>heater.swVersion = device.get("swVersion")\<close>: it sets the attribute \<open>swVersion\<close>, not
  the field \<open>sw_version\<close>.
\<close>

definition discover_device :: "pylib \<Rightarrow> registry \<Rightarrow> json \<Rightarrow> registry \<times> error option" where
  "discover_device lib hs device =
     (case device of
        JObj d \<Rightarrow>
          if py_eq (dget d ''deviceType'') (JInt ELDOM_DEVICE_TYPE_HEATER) then
            (let rid = dget d ''realDeviceId'' in
             if \<not> hashable rid then (hs, Some TypeError)
             else
               let heater = (case reg_get hs rid of None \<Rightarrow> new_Heater | Some h \<Rightarrow> h);
                   heater = heater\<lparr>hw_version := Some (str_of lib (dget d ''hwVersion'')),
                                   id' := dget d ''id''\<rparr>
               in
               if truthy (dget d ''lastDataRefreshDate'') then
                 (case parse_refresh_date lib (dget d ''lastDataRefreshDate'') of
                    Inl e \<Rightarrow> (reg_mutate hs rid heater, Some e)
                  | Inr ts \<Rightarrow>
                      (reg_set hs rid
                         (heater\<lparr>last_updated := Some ts, available := Some True,
                                 name := dget d ''name'',
                                 real_device_id := dget d ''realDeviceId'',
                                 swVersion := Some (dget d ''swVersion'')\<rparr>), None))
               else
                 (reg_set hs rid
                    (heater\<lparr>available := Some False,
                            name := dget d ''name'',
                            real_device_id := dget d ''realDeviceId'',
                            swVersion := Some (dget d ''swVersion'')\<rparr>), None))
          else (hs, None)
      | JNull \<Rightarrow> (hs, Some AttributeError)
      | JBool b \<Rightarrow> (hs, Some AttributeError)
      | JInt i \<Rightarrow> (hs, Some AttributeError)
      | JFloat r \<Rightarrow> (hs, Some AttributeError)
      | JStr s \<Rightarrow> (hs, Some AttributeError)
      | JArr xs \<Rightarrow> (hs, Some AttributeError))"

fun discover_loop :: "pylib \<Rightarrow> registry \<Rightarrow> json list \<Rightarrow> registry \<times> error option" where
  "discover_loop lib hs [] = (hs, None)"
| "discover_loop lib hs (device # rest) =
     (case discover_device lib hs device of
        (hs', Some e) \<Rightarrow> (hs', Some e)
      | (hs', None) \<Rightarrow> discover_loop lib hs' rest)"

definition DEVICE_LIST_COMMAND :: string where
  "DEVICE_LIST_COMMAND = ''/api/device/getmy''"

definition get_device_list :: "pylib \<Rightarrow> server \<Rightarrow> request list \<Rightarrow> request list \<times> json" where
  "get_device_list lib srv sent = get_request lib srv sent DEVICE_LIST_COMMAND (JObj []) 3"

text \<open>The branch of \<open>fetch_all_heaters\<close> taken when the registry is empty.\<close>

definition discover ::
  "pylib \<Rightarrow> server \<Rightarrow> MyEldom \<Rightarrow> request list \<Rightarrow> request list \<times> MyEldom \<times> error option" where
  "discover lib srv self sent =
     (case get_device_list lib srv sent of
        (sent', device_list) \<Rightarrow>
          if device_list \<noteq> JNull then
            (case py_iter device_list of
               Inl e \<Rightarrow> (sent', self\<lparr>heaters := []\<rparr>, Some e)
             | Inr devices \<Rightarrow>
                 (case discover_loop lib [] devices of
                    (hs, err) \<Rightarrow> (sent', self\<lparr>heaters := hs\<rparr>, err)))
          else (sent', self\<lparr>heaters := []\<rparr>, None))"

text \<open>
  \<open>asyncio.gather\<close> over one \<open>fetch_heater_data\<close> per heater of the registry. The tasks
  are run here one after the other in the order of the registry; a task that raises does
  not cancel the others, and the first exception is the one that \<open>gather\<close> hands on.
\<close>

fun gather_fetch ::
  "pylib \<Rightarrow> server \<Rightarrow> request list \<Rightarrow> registry \<Rightarrow> request list \<times> registry \<times> error option" where
  "gather_fetch lib srv sent [] = (sent, [], None)"
| "gather_fetch lib srv sent ((k, heater) # rest) =
     (case fetch_heater_data lib srv sent heater of
        (sent1, heater1, res) \<Rightarrow>
          (case gather_fetch lib srv sent1 rest of
             (sent2, rest2, err) \<Rightarrow>
               (sent2, (k, heater1) # rest2,
                (case res of Inl e \<Rightarrow> Some e | Inr b \<Rightarrow> err))))"

definition fetch_all_heaters ::
  "pylib \<Rightarrow> server \<Rightarrow> MyEldom \<Rightarrow> request list \<Rightarrow> request list \<times> MyEldom \<times> (error + registry)" where
  "fetch_all_heaters lib srv self sent =
     (case (if heaters self = [] then discover lib srv self sent else (sent, self, None)) of
        (sent1, self1, Some e) \<Rightarrow> (sent1, self1, Inl e)
      | (sent1, self1, None) \<Rightarrow>
          (case gather_fetch lib srv sent1 (heaters self1) of
             (sent2, hs2, Some e) \<Rightarrow> (sent2, self1\<lparr>heaters := hs2\<rparr>, Inl e)
           | (sent2, hs2, None) \<Rightarrow> (sent2, self1\<lparr>heaters := hs2\<rparr>, Inr hs2)))"

section \<open>Inputs for the examples\<close>

text \<open>
  A status envelope is a JSON object whose field \<open>objectJson\<close> is the status, itself
  JSON, as a string: \<open>json_quote\<close> writes a string as a JSON string (a backslash before
  each double quote), \<open>envelope\<close> the whole body.
\<close>

definition json_quote :: "string \<Rightarrow> string" where
  "json_quote s =
     CHR 0x22 # concat (map (\<lambda>c. if c = CHR 0x22 then [CHR 0x5C, c] else [c]) s) @ [CHR 0x22]"

definition envelope :: "string \<Rightarrow> string" where
  \<open>envelope status_text = ''{"objectJson":'' @ json_quote status_text @ ''}''\<close>

text \<open>Status texts and what \<open>json.loads\<close> makes of them.\<close>

definition STATUS_GOOD :: string where
  \<open>STATUS_GOOD =
     ''{"State":1,"SetTemp":21.0,"PCBTemp":34.0,"EnergyD":58.0,"EnergyN":5.0,"LastRefreshDate":"2019-10-13T21:03:58Z"}''\<close>

definition status_good :: json where
  "status_good =
     JObj [(''State'', JInt 1), (''SetTemp'', JFloat (Fin 21)), (''PCBTemp'', JFloat (Fin 34)),
           (''EnergyD'', JFloat (Fin 58)), (''EnergyN'', JFloat (Fin 5)),
           (''LastRefreshDate'', JStr ''2019-10-13T21:03:58Z'')]"

definition STATUS_NO_DATE :: string where
  \<open>STATUS_NO_DATE = ''{"State":0,"SetTemp":19.0,"PCBTemp":30.0,"EnergyD":1.0,"EnergyN":2.0}''\<close>

definition status_no_date :: json where
  "status_no_date =
     JObj [(''State'', JInt 0), (''SetTemp'', JFloat (Fin 19)), (''PCBTemp'', JFloat (Fin 30)),
           (''EnergyD'', JFloat (Fin 1)), (''EnergyN'', JFloat (Fin 2))]"

definition STATUS_BAD_DATE :: string where
  \<open>STATUS_BAD_DATE =
     ''{"SetTemp":21.0,"PCBTemp":34.0,"EnergyD":58.0,"EnergyN":5.0,"LastRefreshDate":"garbage"}''\<close>

definition status_bad_date :: json where
  "status_bad_date =
     JObj [(''SetTemp'', JFloat (Fin 21)), (''PCBTemp'', JFloat (Fin 34)),
           (''EnergyD'', JFloat (Fin 58)), (''EnergyN'', JFloat (Fin 5)),
           (''LastRefreshDate'', JStr ''garbage'')]"

definition STATUS_BAD_NIGHT :: string where
  \<open>STATUS_BAD_NIGHT = ''{"SetTemp":21.0,"PCBTemp":34.0,"EnergyD":4.0,"EnergyN":"abc"}''\<close>

definition status_bad_night :: json where
  "status_bad_night =
     JObj [(''SetTemp'', JFloat (Fin 21)), (''PCBTemp'', JFloat (Fin 34)),
           (''EnergyD'', JFloat (Fin 4)), (''EnergyN'', JStr ''abc'')]"

definition STATUS_NAN :: string where
  \<open>STATUS_NAN = ''{"SetTemp":21.0,"PCBTemp":34.0,"EnergyD":NaN,"EnergyN":5.0}''\<close>

definition status_nan :: json where
  "status_nan =
     JObj [(''SetTemp'', JFloat (Fin 21)), (''PCBTemp'', JFloat (Fin 34)),
           (''EnergyD'', JFloat NaN), (''EnergyN'', JFloat (Fin 5))]"

definition DEVICES :: string where
  \<open>DEVICES =
     ''[{"deviceType":4,"realDeviceId":"A1","id":1,"name":"Hall","hwVersion":14,"swVersion":"1.2"}]''\<close>

definition devices :: json where
  "devices =
     JArr [JObj [(''deviceType'', JInt 4), (''realDeviceId'', JStr ''A1''), (''id'', JInt 1),
                 (''name'', JStr ''Hall''), (''hwVersion'', JInt 14),
                 (''swVersion'', JStr ''1.2'')]]"

text \<open>
  The library for the examples: each function is a table over the inputs that the
  examples use, with the value Python gives there. The sums of the examples are small
  whole numbers, which the rounding leaves as they are.
\<close>

definition demo_loads :: "string \<Rightarrow> json option" where
  \<open>demo_loads s =
     (if s = envelope STATUS_GOOD then Some (JObj [(''objectJson'', JStr STATUS_GOOD)])
      else if s = envelope STATUS_NO_DATE then Some (JObj [(''objectJson'', JStr STATUS_NO_DATE)])
      else if s = envelope STATUS_BAD_DATE then Some (JObj [(''objectJson'', JStr STATUS_BAD_DATE)])
      else if s = STATUS_GOOD then Some status_good
      else if s = STATUS_NO_DATE then Some status_no_date
      else if s = STATUS_BAD_DATE then Some status_bad_date
      else if s = DEVICES then Some devices
      else if s = ''{"status":true}'' then Some (JObj [(''status'', JBool True)])
      else if s = ''{"status":false}'' then Some (JObj [(''status'', JBool False)])
      else if s = ''{}'' then Some (JObj [])
      else if s = ''5'' then Some (JInt 5)
      else if s = envelope STATUS_BAD_NIGHT
        then Some (JObj [(''objectJson'', JStr STATUS_BAD_NIGHT)])
      else if s = envelope STATUS_NAN then Some (JObj [(''objectJson'', JStr STATUS_NAN)])
      else if s = STATUS_BAD_NIGHT then Some status_bad_night
      else if s = STATUS_NAN then Some status_nan
      else None)\<close>

definition demo_dumps :: "json \<Rightarrow> string" where
  \<open>demo_dumps j =
     (if j = JObj [] then ''{}''
      else if j = status_good then STATUS_GOOD
      else if j = status_no_date then STATUS_NO_DATE
      else if j = status_bad_date then STATUS_BAD_DATE
      else if j = status_bad_night then STATUS_BAD_NIGHT
      else if j = status_nan then STATUS_NAN
      else ''{"deviceId": "A1", "temperature": 21.5}'')\<close>

definition demo_strptime :: "string \<Rightarrow> string \<Rightarrow> datetime option" where
  "demo_strptime s fmt =
     (if s = ''2019-10-13T21:03:58'' \<and> fmt = TIME_FORMAT
      then Some (Datetime 2019 10 13 21 3 58) else None)"

definition demo_str :: "json \<Rightarrow> string" where
  "demo_str j =
     (if j = JInt 1 then ''1'' else if j = JInt 2 then ''2'' else if j = JInt 3 then ''3''
      else if j = JInt 14 then ''14'' else ''None'')"

definition demo_lib :: pylib where
  "demo_lib =
     \<lparr>json_loads = demo_loads, json_dumps = demo_dumps, float_of_str = (\<lambda>s. None), float_round = Fin,
      strptime = demo_strptime, str_of = demo_str\<rparr>"

text \<open>Servers: one that answers every request with the same body, and the others below.\<close>

definition always :: "string \<Rightarrow> server" where
  "always text sent rq = Response 200 text"

text \<open>The login times out \<open>n\<close> times, then the server redirects.\<close>

definition login_after :: "nat \<Rightarrow> server" where
  "login_after n sent rq = (if length sent < n then Timeout else Response 302 [])"

text \<open>A POST times out, a GET is answered with the body.\<close>

definition post_times_out :: "string \<Rightarrow> server" where
  "post_times_out text sent rq = (if meth rq = POST then Timeout else Response 200 text)"

text \<open>
  The heater with id 2 is out of reach, the others get the good status; the device list
  is \<open>DEVICES\<close>.
\<close>

definition second_fails :: server where
  "second_fails sent rq =
     (if url rq = API_ENDPOINT_1 @ ''/api/panelconvector/2'' then ClientError
      else if url rq = API_ENDPOINT_1 @ DEVICE_LIST_COMMAND then Response 200 DEVICES
      else Response 200 (envelope STATUS_GOOD))"

text \<open>A heater as a previous refresh left it, and a client with three of them.\<close>

definition heater_n :: "int \<Rightarrow> Heater" where
  "heater_n i =
     new_Heater\<lparr>id' := JInt i, available := Some True, state := JInt 0,
                set_temp := Some (Fin 18), energy_day := Some (Fin 1),
                energy_night := Some (Fin 1), energy_total := Some (Fin 2)\<rparr>"

definition demo_client :: MyEldom where
  "demo_client =
     \<lparr>email = ''user@example.org'', password = ''secret'',
      heaters = [(JStr ''A1'', heater_n 1), (JStr ''A2'', heater_n 2), (JStr ''A3'', heater_n 3)]\<rparr>"

definition new_client :: MyEldom where
  "new_client = \<lparr>email = ''user@example.org'', password = ''secret'', heaters = []\<rparr>"

text \<open>What a refresh with the good status makes of a heater.\<close>

definition refreshed :: "Heater \<Rightarrow> Heater" where
  "refreshed h =
     h\<lparr>raw_data := Some STATUS_GOOD, state := JInt 1, power' := JNull, current_temp := JNull,
       set_temp := Some (Fin 21), pcb_temp := Some (Fin 34), open_window := JNull,
       energy_day := Some (Fin 58), energy_night := Some (Fin 5),
       energy_total := Some (Fin 63),
       last_updated := Some (Datetime 2019 10 13 21 3 58), available := Some True\<rparr>"

definition panel_req :: "string \<Rightarrow> request" where
  \<open>panel_req n =
     \<lparr>meth = GET, url = ''https://myeldom.com/api/panelconvector/'' @ n, data = Data ''{}''\<rparr>\<close>

section \<open>Properties of the transport\<close>

declare get_request.simps [simp del]

declare do_login.simps [simp del]

lemma get_request_Timeout_retry:
  "srv sent (get_req lib command payload) = Timeout \<Longrightarrow> 1 \<le> retry \<Longrightarrow>
   get_request lib srv sent command payload retry =
   get_request lib srv (sent @ [get_req lib command payload]) command payload (retry - 1)"
  by (subst get_request.simps) simp

lemma get_request_Timeout_last:
  "srv sent (get_req lib command payload) = Timeout \<Longrightarrow> retry < 1 \<Longrightarrow>
   get_request lib srv sent command payload retry = (sent @ [get_req lib command payload], JNull)"
  by (subst get_request.simps) simp

lemma get_request_ClientError:
  "srv sent (get_req lib command payload) = ClientError \<Longrightarrow>
   get_request lib srv sent command payload retry = (sent @ [get_req lib command payload], JNull)"
  by (subst get_request.simps) simp

lemma get_request_Response:
  "srv sent (get_req lib command payload) = Response st body \<Longrightarrow>
   get_request lib srv sent command payload retry =
     (sent @ [get_req lib command payload], decode_response lib body)"
  by (subst get_request.simps) simp

text \<open>Every request that \<open>_get_request\<close> sends is the same GET, and it sends at least one.\<close>

lemma get_request_extends:
  "\<exists>n. fst (get_request lib srv sent command payload retry) =
         sent @ replicate (Suc n) (get_req lib command payload)"
proof (induction lib srv sent command payload retry rule: get_request.induct)
  case (1 lib srv sent command payload retry)
  let ?rq = "get_req lib command payload"
  show ?case
  proof (cases "srv sent ?rq")
    case Timeout
    show ?thesis
    proof (cases "retry < 1")
      case True
      with Timeout have "fst (get_request lib srv sent command payload retry) = sent @ replicate (Suc 0) ?rq"
        by (simp add: get_request_Timeout_last)
      then show ?thesis by blast
    next
      case False
      from 1[OF Timeout False] obtain n where
        "fst (get_request lib srv (sent @ [?rq]) command payload (retry - 1))
           = (sent @ [?rq]) @ replicate (Suc n) ?rq" by blast
      with Timeout False
      have "fst (get_request lib srv sent command payload retry) = sent @ replicate (Suc (Suc n)) ?rq"
        by (simp add: get_request_Timeout_retry)
      then show ?thesis by blast
    qed
  next
    case ClientError
    then have "fst (get_request lib srv sent command payload retry) = sent @ replicate (Suc 0) ?rq"
      by (simp add: get_request_ClientError)
    then show ?thesis by blast
  next
    case (Response st body)
    then have "fst (get_request lib srv sent command payload retry) = sent @ replicate (Suc 0) ?rq"
      by (simp add: get_request_Response)
    then show ?thesis by blast
  qed
qed

lemma get_request_always:
  "get_request lib (always body) sent command payload retry =
     (sent @ [get_req lib command payload], decode_response lib body)"
  by (rule get_request_Response [where st = 200]) (simp add: always_def)

section \<open>Properties of the refresh of one heater\<close>


lemma update_availability_available:
  "available (fst (update_availability lib status h)) =
     (if snd (update_availability lib status h) = None
      then Some (truthy (dget status ''LastRefreshDate'')) else available h)"
  by (simp add: update_availability_def split: sum.splits)

lemma update_availability_None:
  "snd (update_availability lib status h) = None \<longleftrightarrow>
     (truthy (dget status ''LastRefreshDate'') \<longrightarrow>
        (\<exists>ts. parse_refresh_date lib (dget status ''LastRefreshDate'') = Inr ts))"
  by (simp add: update_availability_def split: sum.splits)

lemma update_availability_last_updated:
  "parse_refresh_date lib (dget status ''LastRefreshDate'') = Inr ts \<Longrightarrow>
   truthy (dget status ''LastRefreshDate'') \<Longrightarrow>
   last_updated (fst (update_availability lib status h)) = Some ts"
  by (simp add: update_availability_def)

lemma update_energy_None:
  "snd (update_energy lib status h) = None \<longleftrightarrow>
     (\<exists>d n. py_float lib (dget status ''EnergyD'') = Inr d
          \<and> py_float lib (dget status ''EnergyN'') = Inr n
          \<and> snd (update_availability lib status
                  (h\<lparr>energy_day := Some d, energy_night := Some n,
                     energy_total := Some (float_add lib d n)\<rparr>)) = None)"
  by (simp add: update_energy_def split: sum.splits)

lemma update_energy_ok:
  "py_float lib (dget status ''EnergyD'') = Inr d \<Longrightarrow>
   py_float lib (dget status ''EnergyN'') = Inr n \<Longrightarrow>
   update_energy lib status h =
     update_availability lib status
       (h\<lparr>energy_day := Some d, energy_night := Some n, energy_total := Some (float_add lib d n)\<rparr>)"
  by (simp add: update_energy_def)

lemma update_energy_available:
  "available (fst (update_energy lib status h)) =
     (if snd (update_energy lib status h) = None
      then Some (truthy (dget status ''LastRefreshDate'')) else available h)"
  by (simp add: update_energy_def update_availability_available split: sum.splits)

lemma update_temps_None:
  "snd (update_temps lib object_json status h) = None \<longleftrightarrow>
     (\<exists>timer t p. contains ''TimerSTempA'' object_json = Inr timer
          \<and> py_float lib (dget status (if timer then ''TimerSTempA'' else ''SetTemp'')) = Inr t
          \<and> py_float lib (dget status ''PCBTemp'') = Inr p
          \<and> snd (update_energy lib status
                  (h\<lparr>set_temp := Some t, pcb_temp := Some p,
                     open_window := dget status ''OpenWindow''\<rparr>)) = None)"
proof (cases "contains ''TimerSTempA'' object_json")
  case (Inl e)
  then show ?thesis by (simp add: update_temps_def)
next
  case timer: (Inr timer)
  show ?thesis
  proof (cases "py_float lib (dget status (if timer then ''TimerSTempA'' else ''SetTemp''))")
    case (Inl e)
    with timer show ?thesis by (simp add: update_temps_def)
  next
    case t: (Inr t)
    show ?thesis
    proof (cases "py_float lib (dget status ''PCBTemp'')")
      case (Inl e)
      with timer t show ?thesis by (simp add: update_temps_def)
    next
      case (Inr p)
      with timer t show ?thesis by (simp add: update_temps_def)
    qed
  qed
qed

lemma update_temps_ok:
  "contains ''TimerSTempA'' object_json = Inr timer \<Longrightarrow>
   py_float lib (dget status (if timer then ''TimerSTempA'' else ''SetTemp'')) = Inr t \<Longrightarrow>
   py_float lib (dget status ''PCBTemp'') = Inr p \<Longrightarrow>
   update_temps lib object_json status h =
     update_energy lib status
       (h\<lparr>set_temp := Some t, pcb_temp := Some p, open_window := dget status ''OpenWindow''\<rparr>)"
  by (simp add: update_temps_def)

lemma update_temps_available:
  "available (fst (update_temps lib object_json status h)) =
     (if snd (update_temps lib object_json status h) = None
      then Some (truthy (dget status ''LastRefreshDate'')) else available h)"
  by (simp add: update_temps_def update_energy_available split: sum.splits)

lemma update_status_None:
  "snd (update_status lib object_json st h) = None \<longleftrightarrow>
     (\<exists>status. st = JObj status
          \<and> snd (update_temps lib object_json status
                  (h\<lparr>state := dget status ''State'', power' := dget status ''Power'',
                     current_temp := dget status ''AmbientTemp''\<rparr>)) = None)"
  by (cases st) simp_all

lemma update_status_available:
  "available (fst (update_status lib object_json st h)) =
     (case st of
        JObj status \<Rightarrow>
          if snd (update_status lib object_json st h) = None
          then Some (truthy (dget status ''LastRefreshDate'')) else available h
      | _ \<Rightarrow> available h)"
  by (cases st) (simp_all add: update_temps_available)

lemma update_heater_None:
  "snd (update_heater lib heater_data h) = None \<longleftrightarrow>
     (\<exists>object_json st. subscript heater_data ''objectJson'' = Inr object_json
          \<and> loads lib object_json = Inr st
          \<and> snd (update_status lib object_json st
                  (h\<lparr>raw_data := Some (json_dumps lib st)\<rparr>)) = None)"
  by (simp add: update_heater_def split: sum.splits)

lemma update_heater_ok:
  "subscript heater_data ''objectJson'' = Inr object_json \<Longrightarrow>
   loads lib object_json = Inr st \<Longrightarrow>
   update_heater lib heater_data h =
     update_status lib object_json st (h\<lparr>raw_data := Some (json_dumps lib st)\<rparr>)"
  by (simp add: update_heater_def)

lemma update_heater_error_available:
  "snd (update_heater lib heater_data h) = Some e \<Longrightarrow>
   available (fst (update_heater lib heater_data h)) = available h"
  by (auto simp: update_heater_def update_status_available split: sum.splits json.splits if_splits)

text \<open>The two branches of \<open>fetch_heater_data\<close>.\<close>

lemma fetch_heater_data_no_payload:
  "get_request lib srv sent (heater_command lib heater) (JObj []) 3 = (sent', JNull) \<Longrightarrow>
   fetch_heater_data lib srv sent heater = (sent', heater\<lparr>available := Some False\<rparr>, Inr False)"
  by (simp add: fetch_heater_data_def)

lemma fetch_heater_data_payload:
  "get_request lib srv sent (heater_command lib heater) (JObj []) 3 = (sent', heater_data) \<Longrightarrow>
   heater_data \<noteq> JNull \<Longrightarrow>
   fetch_heater_data lib srv sent heater =
     (sent', fst (update_heater lib heater_data heater),
      (case snd (update_heater lib heater_data heater) of
         None \<Rightarrow> Inr True | Some e \<Rightarrow> Inl e))"
  by (simp add: fetch_heater_data_def split: prod.splits option.splits)


text \<open>
  What a successful run of the body has done: the payload decoded to a dictionary, the
  four floats converted, and the heater is the result of the final \<open>if\<close> on a heater whose
  three energy fields hold the day value, the night value and their sum.
\<close>

lemma update_heater_success:
  assumes "update_heater lib heater_data heater = (heater', None)"
  shows "\<exists>object_json status d n h.
      subscript heater_data ''objectJson'' = Inr object_json
    \<and> loads lib object_json = Inr (JObj status)
    \<and> py_float lib (dget status ''EnergyD'') = Inr d
    \<and> py_float lib (dget status ''EnergyN'') = Inr n
    \<and> energy_day h = Some d \<and> energy_night h = Some n \<and> energy_total h = Some (float_add lib d n)
    \<and> update_availability lib status h = (heater', None)"
proof -
  from assms have "snd (update_heater lib heater_data heater) = None" by simp
  then obtain object_json st where
    oj: "subscript heater_data ''objectJson'' = Inr object_json" and
    st: "loads lib object_json = Inr st" and
    s1: "snd (update_status lib object_json st
               (heater\<lparr>raw_data := Some (json_dumps lib st)\<rparr>)) = None"
    unfolding update_heater_None by blast
  let ?h1 = "heater\<lparr>raw_data := Some (json_dumps lib st)\<rparr>"
  from s1 obtain status where
    obj: "st = JObj status" and
    s2: "snd (update_temps lib object_json status
               (?h1\<lparr>state := dget status ''State'', power' := dget status ''Power'',
                    current_temp := dget status ''AmbientTemp''\<rparr>)) = None"
    unfolding update_status_None by blast
  let ?h2 = "?h1\<lparr>state := dget status ''State'', power' := dget status ''Power'',
                  current_temp := dget status ''AmbientTemp''\<rparr>"
  from s2 obtain timer t p where
    tm: "contains ''TimerSTempA'' object_json = Inr timer" and
    t: "py_float lib (dget status (if timer then ''TimerSTempA'' else ''SetTemp'')) = Inr t" and
    p: "py_float lib (dget status ''PCBTemp'') = Inr p" and
    s3: "snd (update_energy lib status
               (?h2\<lparr>set_temp := Some t, pcb_temp := Some p,
                    open_window := dget status ''OpenWindow''\<rparr>)) = None"
    unfolding update_temps_None by blast
  let ?h3 = "?h2\<lparr>set_temp := Some t, pcb_temp := Some p,
                  open_window := dget status ''OpenWindow''\<rparr>"
  from s3 obtain d n where
    d: "py_float lib (dget status ''EnergyD'') = Inr d" and
    n: "py_float lib (dget status ''EnergyN'') = Inr n"
    unfolding update_energy_None by blast
  let ?h4 = "?h3\<lparr>energy_day := Some d, energy_night := Some n, energy_total := Some (float_add lib d n)\<rparr>"
  have "update_heater lib heater_data heater = update_status lib object_json st ?h1"
    using oj st by (rule update_heater_ok)
  also have "\<dots> = update_temps lib object_json status ?h2"
    using obj by simp
  also have "\<dots> = update_energy lib status ?h3"
    using tm t p by (rule update_temps_ok)
  also have "\<dots> = update_availability lib status ?h4"
    using d n by (rule update_energy_ok)
  finally have "update_availability lib status ?h4 = (heater', None)"
    using assms by simp
  moreover have "energy_day ?h4 = Some d" "energy_night ?h4 = Some n"
    "energy_total ?h4 = Some (float_add lib d n)" by simp_all
  ultimately show ?thesis using oj st obj d n by blast
qed


section \<open>The examples, evaluated\<close>

lemma demo_round: "float_round demo_lib x = Fin x"
  by (simp add: demo_lib_def)

lemma decode_envelope_good:
  "decode_response demo_lib (envelope STATUS_GOOD) = JObj [(''objectJson'', JStr STATUS_GOOD)]"
  by (simp add: decode_response_def demo_lib_def demo_loads_def envelope_def)

lemma decode_envelope_bad_date:
  "decode_response demo_lib (envelope STATUS_BAD_DATE) =
     JObj [(''objectJson'', JStr STATUS_BAD_DATE)]"
  by (simp add: decode_response_def demo_lib_def demo_loads_def envelope_def json_quote_def
        STATUS_GOOD_def STATUS_BAD_DATE_def STATUS_NO_DATE_def)

lemma decode_empty_object: "decode_response demo_lib ''{}'' = JObj []"
  by (simp add: decode_response_def demo_lib_def demo_loads_def envelope_def json_quote_def
        STATUS_GOOD_def STATUS_BAD_DATE_def STATUS_NO_DATE_def DEVICES_def)

lemma loads_status_good: "loads demo_lib (JStr STATUS_GOOD) = Inr status_good"
  by (simp add: demo_lib_def demo_loads_def envelope_def json_quote_def STATUS_GOOD_def)

lemma loads_status_bad_date: "loads demo_lib (JStr STATUS_BAD_DATE) = Inr status_bad_date"
  by (simp add: demo_lib_def demo_loads_def envelope_def json_quote_def
        STATUS_GOOD_def STATUS_BAD_DATE_def STATUS_NO_DATE_def)

lemma no_timer_good: "contains ''TimerSTempA'' (JStr STATUS_GOOD) = Inr False"
  by (simp add: STATUS_GOOD_def)

lemma no_timer_bad_date: "contains ''TimerSTempA'' (JStr STATUS_BAD_DATE) = Inr False"
  by (simp add: STATUS_BAD_DATE_def)

lemma parse_good_date:
  "parse_refresh_date demo_lib (JStr ''2019-10-13T21:03:58Z'') = Inr (Datetime 2019 10 13 21 3 58)"
  by (simp add: demo_lib_def demo_strptime_def)

lemma parse_garbage: "parse_refresh_date demo_lib (JStr ''garbage'') = Inl ValueError"
  by (simp add: demo_lib_def demo_strptime_def)

lemma update_heater_good:
  "update_heater demo_lib (JObj [(''objectJson'', JStr STATUS_GOOD)]) h = (refreshed h, None)"
proof -
  have dumps: "json_dumps demo_lib status_good = STATUS_GOOD"
    by (simp add: demo_lib_def demo_dumps_def status_good_def)
  have "update_heater demo_lib (JObj [(''objectJson'', JStr STATUS_GOOD)]) h =
      update_status demo_lib (JStr STATUS_GOOD) status_good (h\<lparr>raw_data := Some STATUS_GOOD\<rparr>)"
    using loads_status_good dumps by (simp add: update_heater_def)
  also have "\<dots> = (refreshed h, None)"
    using no_timer_good parse_good_date
    by (simp add: status_good_def update_temps_def update_energy_def update_availability_def
          dget_def refreshed_def demo_round)
  finally show ?thesis .
qed

lemma update_heater_bad_date:
  "update_heater demo_lib (JObj [(''objectJson'', JStr STATUS_BAD_DATE)]) h =
     (h\<lparr>raw_data := Some STATUS_BAD_DATE, state := JNull, power' := JNull,
        current_temp := JNull, set_temp := Some (Fin 21), pcb_temp := Some (Fin 34),
        open_window := JNull, energy_day := Some (Fin 58), energy_night := Some (Fin 5),
        energy_total := Some (Fin 63)\<rparr>, Some ValueError)"
proof -
  have dumps: "json_dumps demo_lib status_bad_date = STATUS_BAD_DATE"
    by (simp add: demo_lib_def demo_dumps_def status_bad_date_def status_good_def
          status_no_date_def)
  have "update_heater demo_lib (JObj [(''objectJson'', JStr STATUS_BAD_DATE)]) h =
      update_status demo_lib (JStr STATUS_BAD_DATE) status_bad_date
        (h\<lparr>raw_data := Some STATUS_BAD_DATE\<rparr>)"
    using loads_status_bad_date dumps by (simp add: update_heater_def)
  also have "\<dots> = (h\<lparr>raw_data := Some STATUS_BAD_DATE, state := JNull, power' := JNull,
        current_temp := JNull, set_temp := Some (Fin 21), pcb_temp := Some (Fin 34),
        open_window := JNull, energy_day := Some (Fin 58), energy_night := Some (Fin 5),
        energy_total := Some (Fin 63)\<rparr>, Some ValueError)"
    using no_timer_bad_date parse_garbage
    by (simp add: status_bad_date_def update_temps_def update_energy_def
          update_availability_def dget_def demo_round)
  finally show ?thesis .
qed

lemma heater_command_n:
  "heater_command demo_lib (heater_n 1) = ''/api/panelconvector/1''"
  "heater_command demo_lib (heater_n 2) = ''/api/panelconvector/2''"
  "heater_command demo_lib (heater_n 3) = ''/api/panelconvector/3''"
  by (simp_all add: heater_command_def heater_n_def demo_lib_def demo_str_def)

lemma get_req_panel:
  "get_req demo_lib (''/api/panelconvector/'' @ n) (JObj []) = panel_req n"
  by (simp add: get_req_def panel_req_def API_ENDPOINT_1_def demo_lib_def demo_dumps_def)

lemma fetch_good_always:
  "fetch_heater_data demo_lib (always (envelope STATUS_GOOD)) sent (heater_n 1) =
     (sent @ [panel_req ''1''], refreshed (heater_n 1), Inr True)"
  using get_req_panel [of "''1''"]
  by (simp add: fetch_heater_data_def heater_command_n get_request_always decode_envelope_good
        update_heater_good)

lemma fetch_bad_date_always:
  "fetch_heater_data demo_lib (always (envelope STATUS_BAD_DATE)) sent (heater_n 1) =
     (sent @ [panel_req ''1''],
      fst (update_heater demo_lib (JObj [(''objectJson'', JStr STATUS_BAD_DATE)]) (heater_n 1)),
      Inl ValueError)"
  using get_req_panel [of "''1''"]
  by (simp add: fetch_heater_data_def heater_command_n get_request_always
        decode_envelope_bad_date update_heater_bad_date)

lemma fetch_empty_object_always:
  "fetch_heater_data demo_lib (always ''{}'') sent (heater_n 1) =
     (sent @ [panel_req ''1''], heater_n 1, Inl KeyError)"
  using get_req_panel [of "''1''"]
  by (simp add: fetch_heater_data_def heater_command_n get_request_always
        decode_empty_object update_heater_def)

lemma decode_envelope_no_date:
  "decode_response demo_lib (envelope STATUS_NO_DATE) =
     JObj [(''objectJson'', JStr STATUS_NO_DATE)]"
  by (simp add: decode_response_def demo_lib_def demo_loads_def envelope_def json_quote_def
        STATUS_GOOD_def STATUS_NO_DATE_def)

lemma loads_status_no_date: "loads demo_lib (JStr STATUS_NO_DATE) = Inr status_no_date"
  by (simp add: demo_lib_def demo_loads_def envelope_def json_quote_def
        STATUS_GOOD_def STATUS_BAD_DATE_def STATUS_NO_DATE_def)

lemma no_timer_no_date: "contains ''TimerSTempA'' (JStr STATUS_NO_DATE) = Inr False"
  by (simp add: STATUS_NO_DATE_def)

lemma update_heater_no_date:
  "update_heater demo_lib (JObj [(''objectJson'', JStr STATUS_NO_DATE)]) h =
     (h\<lparr>raw_data := Some STATUS_NO_DATE, state := JInt 0, power' := JNull,
        current_temp := JNull, set_temp := Some (Fin 19), pcb_temp := Some (Fin 30),
        open_window := JNull, energy_day := Some (Fin 1), energy_night := Some (Fin 2),
        energy_total := Some (Fin 3), available := Some False\<rparr>, None)"
proof -
  have dumps: "json_dumps demo_lib status_no_date = STATUS_NO_DATE"
    by (simp add: demo_lib_def demo_dumps_def status_no_date_def status_good_def)
  have "update_heater demo_lib (JObj [(''objectJson'', JStr STATUS_NO_DATE)]) h =
      update_status demo_lib (JStr STATUS_NO_DATE) status_no_date
        (h\<lparr>raw_data := Some STATUS_NO_DATE\<rparr>)"
    using loads_status_no_date dumps by (simp add: update_heater_def)
  also have "\<dots> = (h\<lparr>raw_data := Some STATUS_NO_DATE, state := JInt 0, power' := JNull,
        current_temp := JNull, set_temp := Some (Fin 19), pcb_temp := Some (Fin 30),
        open_window := JNull, energy_day := Some (Fin 1), energy_night := Some (Fin 2),
        energy_total := Some (Fin 3), available := Some False\<rparr>, None)"
    using no_timer_no_date
    by (simp add: status_no_date_def update_temps_def update_energy_def
          update_availability_def dget_def demo_round)
  finally show ?thesis .
qed

lemma fetch_no_date_always:
  "fetch_heater_data demo_lib (always (envelope STATUS_NO_DATE)) sent (heater_n 1) =
     (sent @ [panel_req ''1''],
      fst (update_heater demo_lib (JObj [(''objectJson'', JStr STATUS_NO_DATE)]) (heater_n 1)),
      Inr True)"
  using get_req_panel [of "''1''"]
  by (simp add: fetch_heater_data_def heater_command_n get_request_always
        decode_envelope_no_date update_heater_no_date)











section \<open>Claims about the refresh of one heater\<close>





lemma loads_Inr:
  "loads lib x = Inr st \<longleftrightarrow> (\<exists>s. x = JStr s \<and> json_loads lib s = Some st)"
  by (cases x) (auto split: option.splits)

text \<open>When the body of \<open>fetch_heater_data\<close> runs to its end without an exception.\<close>

lemma update_heater_None_iff:
  "snd (update_heater lib heater_data h) = None \<longleftrightarrow>
     (\<exists>s status t p d n.
         subscript heater_data ''objectJson'' = Inr (JStr s)
       \<and> json_loads lib s = Some (JObj status)
       \<and> py_float lib
            (dget status (if str_contains ''TimerSTempA'' s then ''TimerSTempA'' else ''SetTemp''))
            = Inr t
       \<and> py_float lib (dget status ''PCBTemp'') = Inr p
       \<and> py_float lib (dget status ''EnergyD'') = Inr d
       \<and> py_float lib (dget status ''EnergyN'') = Inr n
       \<and> (truthy (dget status ''LastRefreshDate'') \<longrightarrow>
            (\<exists>ts. parse_refresh_date lib (dget status ''LastRefreshDate'') = Inr ts)))"
  (is "?L \<longleftrightarrow> ?R")
proof
  assume ?L
  then obtain object_json st where
    oj: "subscript heater_data ''objectJson'' = Inr object_json" and
    st: "loads lib object_json = Inr st" and
    s1: "snd (update_status lib object_json st
               (h\<lparr>raw_data := Some (json_dumps lib st)\<rparr>)) = None"
    unfolding update_heater_None by blast
  from st obtain s where s: "object_json = JStr s" "json_loads lib s = Some st"
    unfolding loads_Inr by blast
  from s1 obtain status where
    obj: "st = JObj status" and
    s2: "snd (update_temps lib object_json status
               (h\<lparr>raw_data := Some (json_dumps lib st), state := dget status ''State'',
                  power' := dget status ''Power'',
                  current_temp := dget status ''AmbientTemp''\<rparr>)) = None"
    unfolding update_status_None by blast
  from s2 obtain timer t p where
    tm: "contains ''TimerSTempA'' object_json = Inr timer" and
    t: "py_float lib (dget status (if timer then ''TimerSTempA'' else ''SetTemp'')) = Inr t" and
    p: "py_float lib (dget status ''PCBTemp'') = Inr p" and
    s3: "snd (update_energy lib status
               (h\<lparr>raw_data := Some (json_dumps lib st), state := dget status ''State'',
                  power' := dget status ''Power'',
                  current_temp := dget status ''AmbientTemp'',
                  set_temp := Some t, pcb_temp := Some p,
                  open_window := dget status ''OpenWindow''\<rparr>)) = None"
    unfolding update_temps_None by blast
  from tm s have timer: "timer = str_contains ''TimerSTempA'' s" by simp
  from s3 obtain d n where
    d: "py_float lib (dget status ''EnergyD'') = Inr d" and
    n: "py_float lib (dget status ''EnergyN'') = Inr n" and
    s4: "snd (update_availability lib status
               (h\<lparr>raw_data := Some (json_dumps lib st), state := dget status ''State'',
                  power' := dget status ''Power'',
                  current_temp := dget status ''AmbientTemp'',
                  set_temp := Some t, pcb_temp := Some p,
                  open_window := dget status ''OpenWindow'',
                  energy_day := Some d, energy_night := Some n,
                  energy_total := Some (float_add lib d n)\<rparr>)) = None"
    unfolding update_energy_None by blast
  from s4 have "truthy (dget status ''LastRefreshDate'') \<longrightarrow>
      (\<exists>ts. parse_refresh_date lib (dget status ''LastRefreshDate'') = Inr ts)"
    unfolding update_availability_None .
  with oj s obj t p d n timer show ?R by blast
next
  assume ?R
  then obtain s status t p d n where
    oj: "subscript heater_data ''objectJson'' = Inr (JStr s)" and
    st: "json_loads lib s = Some (JObj status)" and
    t: "py_float lib
          (dget status (if str_contains ''TimerSTempA'' s then ''TimerSTempA'' else ''SetTemp''))
          = Inr t" and
    p: "py_float lib (dget status ''PCBTemp'') = Inr p" and
    d: "py_float lib (dget status ''EnergyD'') = Inr d" and
    n: "py_float lib (dget status ''EnergyN'') = Inr n" and
    date: "truthy (dget status ''LastRefreshDate'') \<longrightarrow>
            (\<exists>ts. parse_refresh_date lib (dget status ''LastRefreshDate'') = Inr ts)"
    by blast
  have ld: "loads lib (JStr s) = Inr (JObj status)" using st by simp
  have tm: "contains ''TimerSTempA'' (JStr s) = Inr (str_contains ''TimerSTempA'' s)" by simp
  show ?L
    unfolding update_heater_ok [OF oj ld] update_status.simps update_temps_ok [OF tm t p]
      update_energy_ok [OF d n] update_availability_None
    using date .
qed

section \<open>Claims about availability and exceptions\<close>

text \<open>
  C2, as the code has it. Take a call of \<open>fetch_heater_data\<close> whose response carries an
  \<open>objectJson\<close> that decodes to a dictionary. If the call returns \<open>True\<close>, the heater is
  available exactly when \<open>LastRefreshDate\<close> is there with a true value and its first 19
  characters parse (then \<open>last_updated\<close> is that time), and is marked unavailable exactly
  when the field is missing or has a false value. If \<open>LastRefreshDate\<close> has a true value
  that does not parse, the call raises; and whenever the call raises, \<open>available\<close> is what
  it was before the call.
\<close>

theorem fetch_heater_data_available:
  assumes "fetch_heater_data lib srv sent heater = (sent', heater', res)"
    and "get_request lib srv sent (heater_command lib heater) (JObj []) 3 = (sent', heater_data)"
    and "subscript heater_data ''objectJson'' = Inr object_json"
    and "loads lib object_json = Inr (JObj status)"
  shows "(res = Inr True \<longrightarrow>
            (available heater' = Some True \<longleftrightarrow>
               truthy (dget status ''LastRefreshDate'')
               \<and> (\<exists>ts. parse_refresh_date lib (dget status ''LastRefreshDate'') = Inr ts
                        \<and> last_updated heater' = Some ts))
          \<and> (available heater' = Some False \<longleftrightarrow> \<not> truthy (dget status ''LastRefreshDate'')))
       \<and> (truthy (dget status ''LastRefreshDate'')
            \<and> (\<exists>e. parse_refresh_date lib (dget status ''LastRefreshDate'') = Inl e)
            \<longrightarrow> (\<exists>e. res = Inl e))
       \<and> ((\<exists>e. res = Inl e) \<longrightarrow> available heater' = available heater)
       \<and> (res = Inr True \<or> (\<exists>e. res = Inl e))"
proof -
  let ?date = "dget status ''LastRefreshDate''"
  from assms(3) have nn: "heater_data \<noteq> JNull" by (cases heater_data) auto
  from fetch_heater_data_payload [OF assms(2) nn] assms(1)
  have h': "heater' = fst (update_heater lib heater_data heater)"
    and res: "res = (case snd (update_heater lib heater_data heater) of
                       None \<Rightarrow> Inr True | Some e \<Rightarrow> Inl e)" by simp_all
  have cases: "res = Inr True \<or> (\<exists>e. res = Inl e)"
    using res by (cases "snd (update_heater lib heater_data heater)") simp_all
  have err: "available heater' = available heater" if "res = Inl e" for e
  proof -
    from that res have "snd (update_heater lib heater_data heater) = Some e"
      by (cases "snd (update_heater lib heater_data heater)") simp_all
    then show ?thesis unfolding h' by (rule update_heater_error_available)
  qed
  have ok: "available heater' = Some (truthy ?date)
      \<and> (truthy ?date \<longrightarrow> (\<exists>ts. parse_refresh_date lib ?date = Inr ts
                                  \<and> last_updated heater' = Some ts))"
    if "res = Inr True"
  proof -
    from that res have none: "snd (update_heater lib heater_data heater) = None"
      by (cases "snd (update_heater lib heater_data heater)") simp_all
    then have up: "update_heater lib heater_data heater = (heater', None)"
      using h' by (simp add: prod_eq_iff)
    from update_heater_success [OF up] assms(3,4) obtain h where
      av: "update_availability lib status h = (heater', None)" by auto
    from av have a1: "snd (update_availability lib status h) = None"
      and a2: "heater' = fst (update_availability lib status h)" by simp_all
    have "available heater' = Some (truthy ?date)"
      unfolding a2 using a1 by (simp add: update_availability_available)
    moreover have "\<exists>ts. parse_refresh_date lib ?date = Inr ts \<and> last_updated heater' = Some ts"
      if "truthy ?date"
    proof -
      from a1 that obtain ts where ts: "parse_refresh_date lib ?date = Inr ts"
        unfolding update_availability_None by blast
      from update_availability_last_updated [OF ts that, of h] a2 ts show ?thesis by simp
    qed
    ultimately show ?thesis by blast
  qed
  have bad: "\<exists>e. res = Inl e"
    if "truthy ?date" and "\<exists>e. parse_refresh_date lib ?date = Inl e"
  proof (rule ccontr)
    assume "\<not> (\<exists>e. res = Inl e)"
    with cases have "res = Inr True" by blast
    from ok [OF this] that show False by auto
  qed
  show ?thesis using ok err bad cases by auto
qed

theorem fetch_heater_data_available_witness:
  "fetch_heater_data demo_lib (always (envelope STATUS_GOOD)) [] (heater_n 1) =
     ([panel_req ''1''], refreshed (heater_n 1), Inr True)
   \<and> get_request demo_lib (always (envelope STATUS_GOOD)) []
        (heater_command demo_lib (heater_n 1)) (JObj []) 3 =
     ([panel_req ''1''], JObj [(''objectJson'', JStr STATUS_GOOD)])
   \<and> subscript (JObj [(''objectJson'', JStr STATUS_GOOD)]) ''objectJson'' = Inr (JStr STATUS_GOOD)
   \<and> loads demo_lib (JStr STATUS_GOOD) =
       Inr (JObj [(''State'', JInt 1), (''SetTemp'', JFloat (Fin 21)), (''PCBTemp'', JFloat (Fin 34)),
                  (''EnergyD'', JFloat (Fin 58)), (''EnergyN'', JFloat (Fin 5)),
                  (''LastRefreshDate'', JStr ''2019-10-13T21:03:58Z'')])
   \<and> available (refreshed (heater_n 1)) = Some True
   \<and> parse_refresh_date demo_lib (JStr ''2019-10-13T21:03:58Z'') = Inr (Datetime 2019 10 13 21 3 58)
   \<and> last_updated (refreshed (heater_n 1)) = Some (Datetime 2019 10 13 21 3 58)
   \<and> loads demo_lib (JStr STATUS_NO_DATE) =
       Inr (JObj [(''State'', JInt 0), (''SetTemp'', JFloat (Fin 19)), (''PCBTemp'', JFloat (Fin 30)),
                  (''EnergyD'', JFloat (Fin 1)), (''EnergyN'', JFloat (Fin 2))])
   \<and> snd (snd (fetch_heater_data demo_lib (always (envelope STATUS_NO_DATE)) [] (heater_n 1)))
       = Inr True
   \<and> available (fst (snd (fetch_heater_data demo_lib (always (envelope STATUS_NO_DATE)) []
        (heater_n 1)))) = Some False
   \<and> loads demo_lib (JStr STATUS_BAD_DATE) =
       Inr (JObj [(''SetTemp'', JFloat (Fin 21)), (''PCBTemp'', JFloat (Fin 34)),
                  (''EnergyD'', JFloat (Fin 58)), (''EnergyN'', JFloat (Fin 5)),
                  (''LastRefreshDate'', JStr ''garbage'')])
   \<and> snd (snd (fetch_heater_data demo_lib (always (envelope STATUS_BAD_DATE)) [] (heater_n 1)))
       = Inl ValueError
   \<and> available (fst (snd (fetch_heater_data demo_lib (always (envelope STATUS_BAD_DATE)) []
        (heater_n 1)))) = available (heater_n 1)"
proof -
  have run: "fetch_heater_data demo_lib (always (envelope STATUS_GOOD)) [] (heater_n 1) =
     ([panel_req ''1''], refreshed (heater_n 1), Inr True)"
    using fetch_good_always [of "[]"] by simp
  have gr: "get_request demo_lib (always (envelope STATUS_GOOD)) []
        (heater_command demo_lib (heater_n 1)) (JObj []) 3 =
     ([panel_req ''1''], JObj [(''objectJson'', JStr STATUS_GOOD)])"
    using get_req_panel [of "''1''"]
    by (simp add: heater_command_n get_request_always decode_envelope_good)
  have sub: "subscript (JObj [(''objectJson'', JStr STATUS_GOOD)]) ''objectJson'' =
      Inr (JStr STATUS_GOOD)" by simp
  have ld: "loads demo_lib (JStr STATUS_GOOD) =
       Inr (JObj [(''State'', JInt 1), (''SetTemp'', JFloat (Fin 21)), (''PCBTemp'', JFloat (Fin 34)),
                  (''EnergyD'', JFloat (Fin 58)), (''EnergyN'', JFloat (Fin 5)),
                  (''LastRefreshDate'', JStr ''2019-10-13T21:03:58Z'')])"
    using loads_status_good by (simp add: status_good_def)
  from fetch_heater_data_available [OF run gr sub ld]
  have "available (refreshed (heater_n 1)) = Some True \<longleftrightarrow>
      (\<exists>ts. parse_refresh_date demo_lib (JStr ''2019-10-13T21:03:58Z'') = Inr ts
           \<and> last_updated (refreshed (heater_n 1)) = Some ts)"
    by (simp add: dget_def)
  moreover have av: "available (refreshed (heater_n 1)) = Some True" by (simp add: refreshed_def)
  ultimately have lu: "last_updated (refreshed (heater_n 1)) = Some (Datetime 2019 10 13 21 3 58)"
    using parse_good_date by auto
  have good: "fetch_heater_data demo_lib (always (envelope STATUS_GOOD)) [] (heater_n 1) =
     ([panel_req ''1''], refreshed (heater_n 1), Inr True)
   \<and> get_request demo_lib (always (envelope STATUS_GOOD)) []
        (heater_command demo_lib (heater_n 1)) (JObj []) 3 =
     ([panel_req ''1''], JObj [(''objectJson'', JStr STATUS_GOOD)])
   \<and> subscript (JObj [(''objectJson'', JStr STATUS_GOOD)]) ''objectJson'' = Inr (JStr STATUS_GOOD)
   \<and> loads demo_lib (JStr STATUS_GOOD) =
       Inr (JObj [(''State'', JInt 1), (''SetTemp'', JFloat (Fin 21)), (''PCBTemp'', JFloat (Fin 34)),
                  (''EnergyD'', JFloat (Fin 58)), (''EnergyN'', JFloat (Fin 5)),
                  (''LastRefreshDate'', JStr ''2019-10-13T21:03:58Z'')])
   \<and> available (refreshed (heater_n 1)) = Some True
   \<and> parse_refresh_date demo_lib (JStr ''2019-10-13T21:03:58Z'') = Inr (Datetime 2019 10 13 21 3 58)
   \<and> last_updated (refreshed (heater_n 1)) = Some (Datetime 2019 10 13 21 3 58)"
    using run gr sub ld av parse_good_date lu by simp
  let ?N = "fetch_heater_data demo_lib (always (envelope STATUS_NO_DATE)) [] (heater_n 1)"
  have runN: "?N = ([panel_req ''1''], fst (snd ?N), Inr True)"
    using fetch_no_date_always [of "[]"] by simp
  have grN: "get_request demo_lib (always (envelope STATUS_NO_DATE)) []
        (heater_command demo_lib (heater_n 1)) (JObj []) 3 =
     ([panel_req ''1''], JObj [(''objectJson'', JStr STATUS_NO_DATE)])"
    using get_req_panel [of "''1''"]
    by (simp add: heater_command_n get_request_always decode_envelope_no_date)
  have subN: "subscript (JObj [(''objectJson'', JStr STATUS_NO_DATE)]) ''objectJson'' =
      Inr (JStr STATUS_NO_DATE)" by simp
  have ldN: "loads demo_lib (JStr STATUS_NO_DATE) =
       Inr (JObj [(''State'', JInt 0), (''SetTemp'', JFloat (Fin 19)), (''PCBTemp'', JFloat (Fin 30)),
                  (''EnergyD'', JFloat (Fin 1)), (''EnergyN'', JFloat (Fin 2))])"
    using loads_status_no_date by (simp add: status_no_date_def)
  from fetch_heater_data_available [OF runN grN subN ldN]
  have avN: "available (fst (snd ?N)) = Some False" by (simp add: dget_def)
  from runN have resN: "snd (snd ?N) = Inr True" by (metis snd_conv)
  let ?B = "fetch_heater_data demo_lib (always (envelope STATUS_BAD_DATE)) [] (heater_n 1)"
  have runB: "?B = ([panel_req ''1''], fst (snd ?B), Inl ValueError)"
    using fetch_bad_date_always [of "[]"] by simp
  have grB: "get_request demo_lib (always (envelope STATUS_BAD_DATE)) []
        (heater_command demo_lib (heater_n 1)) (JObj []) 3 =
     ([panel_req ''1''], JObj [(''objectJson'', JStr STATUS_BAD_DATE)])"
    using get_req_panel [of "''1''"]
    by (simp add: heater_command_n get_request_always decode_envelope_bad_date)
  have subB: "subscript (JObj [(''objectJson'', JStr STATUS_BAD_DATE)]) ''objectJson'' =
      Inr (JStr STATUS_BAD_DATE)" by simp
  have ldB: "loads demo_lib (JStr STATUS_BAD_DATE) =
       Inr (JObj [(''SetTemp'', JFloat (Fin 21)), (''PCBTemp'', JFloat (Fin 34)),
                  (''EnergyD'', JFloat (Fin 58)), (''EnergyN'', JFloat (Fin 5)),
                  (''LastRefreshDate'', JStr ''garbage'')])"
    using loads_status_bad_date by (simp add: status_bad_date_def)
  from fetch_heater_data_available [OF runB grB subB ldB]
  have avB: "available (fst (snd ?B)) = available (heater_n 1)" by simp
  from runB have resB: "snd (snd ?B) = Inl ValueError" by (metis snd_conv)
  from good ldN resN avN ldB resB avB show ?thesis by blast
qed

text \<open>
  The claim C2 as it is written fails: the status below decodes, all its numbers convert,
  its \<open>LastRefreshDate\<close> is \<open>"garbage"\<close>; the call raises \<open>ValueError\<close> and the heater, which
  was available before the call, is still marked available.
\<close>

theorem fetch_heater_data_available_counterexample:
  "decode_response demo_lib (envelope STATUS_BAD_DATE) =
     JObj [(''objectJson'', JStr STATUS_BAD_DATE)]
   \<and> loads demo_lib (JStr STATUS_BAD_DATE) =
       Inr (JObj [(''SetTemp'', JFloat (Fin 21)), (''PCBTemp'', JFloat (Fin 34)),
                  (''EnergyD'', JFloat (Fin 58)), (''EnergyN'', JFloat (Fin 5)),
                  (''LastRefreshDate'', JStr ''garbage'')])
   \<and> parse_refresh_date demo_lib (JStr ''garbage'') = Inl ValueError
   \<and> available (heater_n 1) = Some True
   \<and> snd (snd (fetch_heater_data demo_lib (always (envelope STATUS_BAD_DATE)) [] (heater_n 1)))
       = Inl ValueError
   \<and> available (fst (snd (fetch_heater_data demo_lib (always (envelope STATUS_BAD_DATE)) []
        (heater_n 1)))) = Some True"
  using fetch_bad_date_always [of "[]"] loads_status_bad_date parse_garbage
    decode_envelope_bad_date
  by (simp add: update_heater_bad_date heater_n_def status_bad_date_def)


text \<open>When \<open>_get_request\<close> returns \<open>None\<close>.\<close>

lemma get_request_all_timeouts:
  "\<forall>s. srv s (get_req lib command payload) = Timeout \<Longrightarrow>
   snd (get_request lib srv sent command payload retry) = JNull"
proof (induction lib srv sent command payload retry rule: get_request.induct)
  case (1 lib srv sent command payload retry)
  then have t: "srv sent (get_req lib command payload) = Timeout" by blast
  show ?case
  proof (cases "retry < 1")
    case True
    with t show ?thesis by (simp add: get_request_Timeout_last)
  next
    case False
    with t 1 show ?thesis by (simp add: get_request_Timeout_retry)
  qed
qed

lemma get_request_no_payload:
  "srv sent (get_req lib command payload) = ClientError
   \<or> (\<exists>st. srv sent (get_req lib command payload) = Response st [])
   \<or> (\<exists>st body. srv sent (get_req lib command payload) = Response st body
         \<and> json_loads lib body = None)
   \<or> (\<forall>s. srv s (get_req lib command payload) = Timeout) \<Longrightarrow>
   snd (get_request lib srv sent command payload retry) = JNull"
  by (auto simp: get_request_ClientError get_request_Response decode_response_def
        get_request_all_timeouts)

text \<open>
  C3, as the code has it. When the request gives no decoded result (the client error, the
  timeouts, the empty body, the body that is not JSON), \<open>fetch_heater_data\<close> returns
  \<open>False\<close> and marks the heater unavailable. When it gives one, there is no handler in the
  body: the call returns \<open>True\<close> exactly when \<open>objectJson\<close> is a string that decodes to a
  dictionary, the target temperature, \<open>PCBTemp\<close>, \<open>EnergyD\<close> and \<open>EnergyN\<close> convert to
  floats and \<open>LastRefreshDate\<close> is false or parses; in every other case the exception of
  the failing statement reaches the caller.
\<close>

theorem fetch_heater_data_outcome:
  "(snd (get_request lib srv sent (heater_command lib heater) (JObj []) 3) = JNull \<longrightarrow>
      fetch_heater_data lib srv sent heater =
        (fst (get_request lib srv sent (heater_command lib heater) (JObj []) 3),
         heater\<lparr>available := Some False\<rparr>, Inr False))
   \<and> (snd (get_request lib srv sent (heater_command lib heater) (JObj []) 3) \<noteq> JNull \<longrightarrow>
        (if \<exists>s status t p d n.
              subscript (snd (get_request lib srv sent (heater_command lib heater) (JObj []) 3))
                ''objectJson'' = Inr (JStr s)
            \<and> json_loads lib s = Some (JObj status)
            \<and> py_float lib
                 (dget status
                    (if str_contains ''TimerSTempA'' s then ''TimerSTempA'' else ''SetTemp''))
                 = Inr t
            \<and> py_float lib (dget status ''PCBTemp'') = Inr p
            \<and> py_float lib (dget status ''EnergyD'') = Inr d
            \<and> py_float lib (dget status ''EnergyN'') = Inr n
            \<and> (truthy (dget status ''LastRefreshDate'') \<longrightarrow>
                 (\<exists>ts. parse_refresh_date lib (dget status ''LastRefreshDate'') = Inr ts))
         then snd (snd (fetch_heater_data lib srv sent heater)) = Inr True
         else \<exists>e. snd (snd (fetch_heater_data lib srv sent heater)) = Inl e))
   \<and> (srv sent (get_req lib (heater_command lib heater) (JObj [])) = ClientError
        \<or> (\<exists>st. srv sent (get_req lib (heater_command lib heater) (JObj [])) = Response st [])
        \<or> (\<exists>st body. srv sent (get_req lib (heater_command lib heater) (JObj []))
                         = Response st body \<and> json_loads lib body = None)
        \<or> (\<forall>s. srv s (get_req lib (heater_command lib heater) (JObj [])) = Timeout)
       \<longrightarrow> snd (get_request lib srv sent (heater_command lib heater) (JObj []) 3) = JNull)"
  (is "?A \<and> (?N \<longrightarrow> (if ?R then ?T else ?E)) \<and> ?C")
proof -
  let ?G = "get_request lib srv sent (heater_command lib heater) (JObj []) 3"
  have G: "?G = (fst ?G, snd ?G)" by simp
  have a: ?A
  proof
    assume "snd ?G = JNull"
    then have "?G = (fst ?G, JNull)" by (simp add: prod_eq_iff)
    then show "fetch_heater_data lib srv sent heater =
        (fst ?G, heater\<lparr>available := Some False\<rparr>, Inr False)"
      by (rule fetch_heater_data_no_payload)
  qed
  have R: "?R \<longleftrightarrow> snd (update_heater lib (snd ?G) heater) = None"
    unfolding update_heater_None_iff ..
  have b: "snd (snd (fetch_heater_data lib srv sent heater)) =
      (case snd (update_heater lib (snd ?G) heater) of None \<Rightarrow> Inr True | Some e \<Rightarrow> Inl e)"
    if ?N
    using fetch_heater_data_payload [OF G that] by simp
  have b1: ?T if ?N ?R
    using b [OF that(1)] that(2) unfolding R by simp
  have b2: ?E if ?N "\<not> ?R"
  proof -
    from that(2) obtain e where "snd (update_heater lib (snd ?G) heater) = Some e"
      unfolding R by blast
    with b [OF that(1)] show ?thesis by simp
  qed
  have n: "?N \<longrightarrow> (if ?R then ?T else ?E)"
  proof (cases ?R)
    case True
    with b1 show ?thesis by (simp only: if_True) blast
  next
    case False
    with b2 show ?thesis by (simp only: if_False) blast
  qed
  have c: ?C
    using get_request_no_payload [of srv sent lib "heater_command lib heater" "JObj []" 3]
    by blast
  from a n c show ?thesis by blast
qed

lemma second_fails_panel:
  "second_fails sent (panel_req ''1'') = Response 200 (envelope STATUS_GOOD)"
  "second_fails sent (panel_req ''2'') = ClientError"
  "second_fails sent (panel_req ''3'') = Response 200 (envelope STATUS_GOOD)"
  by (simp_all add: second_fails_def panel_req_def API_ENDPOINT_1_def DEVICE_LIST_COMMAND_def)

lemma get_request_second_fails:
  "get_request demo_lib second_fails sent ''/api/panelconvector/1'' (JObj []) 3 =
     (sent @ [panel_req ''1''], JObj [(''objectJson'', JStr STATUS_GOOD)])"
  "get_request demo_lib second_fails sent ''/api/panelconvector/2'' (JObj []) 3 =
     (sent @ [panel_req ''2''], JNull)"
  "get_request demo_lib second_fails sent ''/api/panelconvector/3'' (JObj []) 3 =
     (sent @ [panel_req ''3''], JObj [(''objectJson'', JStr STATUS_GOOD)])"
  using get_req_panel [of "''1''"] get_req_panel [of "''2''"] get_req_panel [of "''3''"]
  by (simp_all add: get_request_Response [where st = 200] get_request_ClientError
        second_fails_panel decode_envelope_good)

lemma fetch_second_fails:
  "fetch_heater_data demo_lib second_fails sent (heater_n 1) =
     (sent @ [panel_req ''1''], refreshed (heater_n 1), Inr True)"
  "fetch_heater_data demo_lib second_fails sent (heater_n 2) =
     (sent @ [panel_req ''2''], heater_n 2\<lparr>available := Some False\<rparr>, Inr False)"
  "fetch_heater_data demo_lib second_fails sent (heater_n 3) =
     (sent @ [panel_req ''3''], refreshed (heater_n 3), Inr True)"
  by (simp_all add: fetch_heater_data_def heater_command_n get_request_second_fails
        update_heater_good)

theorem fetch_heater_data_outcome_witness:
  "second_fails [] (get_req demo_lib (heater_command demo_lib (heater_n 2)) (JObj [])) = ClientError
   \<and> snd (get_request demo_lib second_fails [] (heater_command demo_lib (heater_n 2)) (JObj []) 3)
       = JNull
   \<and> fetch_heater_data demo_lib second_fails [] (heater_n 2) =
       ([panel_req ''2''], heater_n 2\<lparr>available := Some False\<rparr>, Inr False)
   \<and> snd (get_request demo_lib (always (envelope STATUS_GOOD)) []
            (heater_command demo_lib (heater_n 1)) (JObj []) 3)
       = JObj [(''objectJson'', JStr STATUS_GOOD)]
   \<and> json_loads demo_lib STATUS_GOOD = Some status_good
   \<and> snd (snd (fetch_heater_data demo_lib (always (envelope STATUS_GOOD)) [] (heater_n 1)))
       = Inr True"
proof -
  let ?G2 = "get_request demo_lib second_fails [] (heater_command demo_lib (heater_n 2)) (JObj []) 3"
  let ?G1 = "get_request demo_lib (always (envelope STATUS_GOOD)) []
               (heater_command demo_lib (heater_n 1)) (JObj []) 3"
  have ce: "second_fails [] (get_req demo_lib (heater_command demo_lib (heater_n 2)) (JObj []))
      = ClientError"
    using get_req_panel [of "''2''"] by (simp add: heater_command_n second_fails_panel)
  note two = fetch_heater_data_outcome [of demo_lib second_fails "[]" "heater_n 2"]
  from two ce have null: "snd ?G2 = JNull" by blast
  with two have "fetch_heater_data demo_lib second_fails [] (heater_n 2) =
      (fst ?G2, heater_n 2\<lparr>available := Some False\<rparr>, Inr False)" by blast
  then have f2: "fetch_heater_data demo_lib second_fails [] (heater_n 2) =
      ([panel_req ''2''], heater_n 2\<lparr>available := Some False\<rparr>, Inr False)"
    by (simp add: heater_command_n get_request_second_fails)
  have g1: "snd ?G1 = JObj [(''objectJson'', JStr STATUS_GOOD)]"
    by (simp add: heater_command_n get_request_always decode_envelope_good)
  have ld: "json_loads demo_lib STATUS_GOOD = Some status_good"
    using loads_status_good by (simp split: option.splits)
  have "snd (update_heater demo_lib (snd ?G1) (heater_n 1)) = None"
    unfolding g1 by (simp add: update_heater_good)
  then have ok: "\<exists>s status t p d n.
        subscript (snd ?G1) ''objectJson'' = Inr (JStr s)
      \<and> json_loads demo_lib s = Some (JObj status)
      \<and> py_float demo_lib
           (dget status (if str_contains ''TimerSTempA'' s then ''TimerSTempA'' else ''SetTemp''))
           = Inr t
      \<and> py_float demo_lib (dget status ''PCBTemp'') = Inr p
      \<and> py_float demo_lib (dget status ''EnergyD'') = Inr d
      \<and> py_float demo_lib (dget status ''EnergyN'') = Inr n
      \<and> (truthy (dget status ''LastRefreshDate'') \<longrightarrow>
           (\<exists>ts. parse_refresh_date demo_lib (dget status ''LastRefreshDate'') = Inr ts))"
    unfolding update_heater_None_iff .
  have nn: "snd ?G1 \<noteq> JNull" unfolding g1 by simp
  from fetch_heater_data_outcome [of demo_lib "always (envelope STATUS_GOOD)" "[]" "heater_n 1"]
    nn ok
  have "snd (snd (fetch_heater_data demo_lib (always (envelope STATUS_GOOD)) [] (heater_n 1)))
      = Inr True"
    by (simp only: if_True simp_thms)
  with ce null f2 g1 ld show ?thesis by blast
qed

text \<open>
  The claim C3 as it is written fails: the server answers with the JSON object \<open>{}\<close>, which
  has no \<open>objectJson\<close>, and the \<open>KeyError\<close> of \<open>heater_data["objectJson"]\<close> reaches the
  caller.
\<close>

theorem fetch_heater_data_outcome_counterexample:
  "decode_response demo_lib ''{}'' = JObj []
   \<and> snd (snd (fetch_heater_data demo_lib (always ''{}'') [] (heater_n 1))) = Inl KeyError"
  using fetch_empty_object_always [of "[]"] decode_empty_object by simp

section \<open>Claims about the refresh of all heaters\<close>

lemma gather_fetch_Cons:
  "gather_fetch lib srv sent ((k, h) # rest) =
     (fst (gather_fetch lib srv (fst (fetch_heater_data lib srv sent h)) rest),
      (k, fst (snd (fetch_heater_data lib srv sent h)))
        # fst (snd (gather_fetch lib srv (fst (fetch_heater_data lib srv sent h)) rest)),
      (case snd (snd (fetch_heater_data lib srv sent h)) of
         Inl e \<Rightarrow> Some e
       | Inr b \<Rightarrow> snd (snd (gather_fetch lib srv (fst (fetch_heater_data lib srv sent h)) rest))))"
  by (auto split: prod.splits sum.splits)

lemma gather_fetch_length:
  "length (fst (snd (gather_fetch lib srv sent hs))) = length hs"
proof (induction hs arbitrary: sent)
  case Nil
  then show ?case by simp
next
  case (Cons kh hs)
  obtain k h where kh: "kh = (k, h)" by (cases kh)
  show ?case unfolding kh gather_fetch_Cons using Cons.IH by simp
qed

lemma gather_fetch_keys:
  "map fst (fst (snd (gather_fetch lib srv sent hs))) = map fst hs"
proof (induction hs arbitrary: sent)
  case Nil
  then show ?case by simp
next
  case (Cons kh hs)
  obtain k h where kh: "kh = (k, h)" by (cases kh)
  show ?case unfolding kh gather_fetch_Cons using Cons.IH by simp
qed

text \<open>
  Each heater of the registry is replaced by what its own \<open>fetch_heater_data\<close> makes of
  it, on the session as the fetches before it left it, whatever these and the later ones
  returned or raised.
\<close>

lemma gather_fetch_nth:
  "i < length hs \<Longrightarrow>
   fst (snd (gather_fetch lib srv sent hs)) ! i =
     (fst (hs ! i),
      fst (snd (fetch_heater_data lib srv (fst (gather_fetch lib srv sent (take i hs)))
                  (snd (hs ! i)))))"
proof (induction hs arbitrary: sent i)
  case Nil
  then show ?case by simp
next
  case (Cons kh hs)
  obtain k h where kh: "kh = (k, h)" by (cases kh)
  show ?case
  proof (cases i)
    case 0
    then show ?thesis unfolding kh gather_fetch_Cons by simp
  next
    case (Suc j)
    with Cons.prems have j: "j < length hs" by simp
    from Cons.IH [OF j, of "fst (fetch_heater_data lib srv sent h)"]
    show ?thesis unfolding kh Suc take_Suc_Cons gather_fetch_Cons by simp
  qed
qed

lemma fetch_all_heaters_populated:
  "heaters self \<noteq> [] \<Longrightarrow>
   fst (fetch_all_heaters lib srv self sent) = fst (gather_fetch lib srv sent (heaters self))
   \<and> heaters (fst (snd (fetch_all_heaters lib srv self sent))) =
       fst (snd (gather_fetch lib srv sent (heaters self)))"
  by (simp add: fetch_all_heaters_def split: prod.splits option.splits)

text \<open>
  C4. When the request of \<open>fetch_heater_data\<close> gives no decoded result, the heater after
  the call is the heater before it with \<open>available\<close> set to \<open>False\<close>, every other field as
  it was, and the call returns \<open>False\<close>. And in \<open>fetch_all_heaters\<close> on a populated registry
  every device keeps its key and is refreshed by its own \<open>fetch_heater_data\<close>, whatever the
  fetches of the other devices did.
\<close>

theorem fetch_failure_is_isolated:
  "(get_request lib srv sent (heater_command lib heater) (JObj []) 3 = (sent', JNull) \<longrightarrow>
      fetch_heater_data lib srv sent heater =
        (sent', heater\<lparr>available := Some False\<rparr>, Inr False))
   \<and> (heaters self \<noteq> [] \<and> i < length (heaters self) \<longrightarrow>
        length (heaters (fst (snd (fetch_all_heaters lib srv self sent0))))
          = length (heaters self)
        \<and> heaters (fst (snd (fetch_all_heaters lib srv self sent0))) ! i =
           (fst (heaters self ! i),
            fst (snd (fetch_heater_data lib srv
                        (fst (gather_fetch lib srv sent0 (take i (heaters self))))
                        (snd (heaters self ! i))))))"
  using fetch_heater_data_no_payload [of lib srv sent heater sent']
    fetch_all_heaters_populated [of self lib srv sent0]
    gather_fetch_nth [of i "heaters self" lib srv sent0]
    gather_fetch_length [of lib srv sent0 "heaters self"]
  by simp

theorem fetch_failure_is_isolated_witness:
  "get_request demo_lib second_fails [panel_req ''1''] (heater_command demo_lib (heater_n 2))
       (JObj []) 3 = ([panel_req ''1'', panel_req ''2''], JNull)
   \<and> fetch_heater_data demo_lib second_fails [panel_req ''1''] (heater_n 2) =
       ([panel_req ''1'', panel_req ''2''], heater_n 2\<lparr>available := Some False\<rparr>, Inr False)
   \<and> heaters demo_client \<noteq> [] \<and> (2::nat) < length (heaters demo_client)
   \<and> heaters (fst (snd (fetch_all_heaters demo_lib second_fails demo_client []))) ! 0 =
       (JStr ''A1'', refreshed (heater_n 1))
   \<and> heaters (fst (snd (fetch_all_heaters demo_lib second_fails demo_client []))) ! 1 =
       (JStr ''A2'', heater_n 2\<lparr>available := Some False\<rparr>)
   \<and> heaters (fst (snd (fetch_all_heaters demo_lib second_fails demo_client []))) ! 2 =
       (JStr ''A3'', refreshed (heater_n 3))
   \<and> length (heaters (fst (snd (fetch_all_heaters demo_lib second_fails demo_client [])))) = 3"
proof -
  have gr: "get_request demo_lib second_fails [panel_req ''1''] (heater_command demo_lib (heater_n 2))
       (JObj []) 3 = ([panel_req ''1'', panel_req ''2''], JNull)"
    by (simp add: heater_command_n get_request_second_fails)
  have ne: "heaters demo_client \<noteq> []" and len: "(2::nat) < length (heaters demo_client)"
    "(1::nat) < length (heaters demo_client)" "(0::nat) < length (heaters demo_client)"
    by (simp_all add: demo_client_def)
  note one = fetch_failure_is_isolated [of demo_lib second_fails "[panel_req ''1'']" "heater_n 2"
      "[panel_req ''1'', panel_req ''2'']" demo_client]
  from one gr have f2: "fetch_heater_data demo_lib second_fails [panel_req ''1''] (heater_n 2) =
       ([panel_req ''1'', panel_req ''2''], heater_n 2\<lparr>available := Some False\<rparr>, Inr False)"
    by blast
  have d1: "heaters (fst (snd (fetch_all_heaters demo_lib second_fails demo_client []))) ! 0 =
       (JStr ''A1'', refreshed (heater_n 1))"
    using one [of 0 "[]"] ne len by (simp add: demo_client_def fetch_second_fails)
  have d2: "heaters (fst (snd (fetch_all_heaters demo_lib second_fails demo_client []))) ! 1 =
       (JStr ''A2'', heater_n 2\<lparr>available := Some False\<rparr>)"
    using one [of 1 "[]"] ne len by (simp add: demo_client_def fetch_second_fails)
  have d3: "heaters (fst (snd (fetch_all_heaters demo_lib second_fails demo_client []))) ! 2 =
       (JStr ''A3'', refreshed (heater_n 3))
     \<and> length (heaters (fst (snd (fetch_all_heaters demo_lib second_fails demo_client [])))) = 3"
    using one [of 2 "[]"] ne len
    by (simp add: demo_client_def fetch_second_fails numeral_2_eq_2)
  from gr f2 ne len d1 d2 d3 show ?thesis by blast
qed


section \<open>Claims about the login\<close>

lemma do_login_retry:
  "transport_failure (srv sent (login_req self)) \<Longrightarrow> 1 \<le> retry \<Longrightarrow>
   do_login srv self sent retry = do_login srv self (sent @ [login_req self]) (retry - 1)"
  by (subst do_login.simps) (cases "srv sent (login_req self)"; simp)

lemma do_login_give_up:
  "transport_failure (srv sent (login_req self)) \<Longrightarrow> retry < 1 \<Longrightarrow>
   do_login srv self sent retry = (sent @ [login_req self], False)"
  by (subst do_login.simps) (cases "srv sent (login_req self)"; simp)

lemma do_login_Response:
  "srv sent (login_req self) = Response st body \<Longrightarrow>
   do_login srv self sent retry = (sent @ [login_req self], st = 302)"
  by (subst do_login.simps) simp

text \<open>A run of failed attempts within the budget is skipped, each costing one retry.\<close>

lemma do_login_skip:
  "\<forall>j<k. transport_failure (srv (sent @ replicate j (login_req self)) (login_req self)) \<Longrightarrow>
   k \<le> nat retry \<Longrightarrow>
   do_login srv self sent retry =
     do_login srv self (sent @ replicate k (login_req self)) (retry - int k)"
proof (induction k arbitrary: sent retry)
  case 0
  then show ?case by simp
next
  case (Suc k)
  let ?rq = "login_req self"
  from Suc.prems(1) have first: "transport_failure (srv sent ?rq)" by force
  from Suc.prems(2) have r: "1 \<le> retry" and k: "k \<le> nat (retry - 1)" by linarith+
  have rest: "\<forall>j<k. transport_failure (srv ((sent @ [?rq]) @ replicate j ?rq) ?rq)"
  proof (intro allI impI)
    fix j assume "j < k"
    then have "Suc j < Suc k" by simp
    with Suc.prems(1) have "transport_failure (srv (sent @ replicate (Suc j) ?rq) ?rq)" by blast
    then show "transport_failure (srv ((sent @ [?rq]) @ replicate j ?rq) ?rq)" by simp
  qed
  have "do_login srv self sent retry = do_login srv self (sent @ [?rq]) (retry - 1)"
    using first r by (rule do_login_retry)
  also have "\<dots> = do_login srv self ((sent @ [?rq]) @ replicate k ?rq) (retry - 1 - int k)"
    using rest k by (rule Suc.IH)
  finally show ?case by (simp add: algebra_simps)
qed

lemma do_login_decided:
  assumes "\<forall>j<k. transport_failure (srv (sent @ replicate j (login_req self)) (login_req self))"
    and "k \<le> nat retry"
    and "srv (sent @ replicate k (login_req self)) (login_req self) = Response st body"
  shows "do_login srv self sent retry = (sent @ replicate (Suc k) (login_req self), st = 302)"
proof -
  let ?rq = "login_req self"
  have "do_login srv self sent retry =
      do_login srv self (sent @ replicate k ?rq) (retry - int k)"
    using assms(1,2) by (rule do_login_skip)
  also have "\<dots> = ((sent @ replicate k ?rq) @ [?rq], st = 302)"
    using assms(3) by (rule do_login_Response)
  finally show ?thesis by (simp add: replicate_append_same)
qed

lemma do_login_exhausted:
  assumes "\<forall>j\<le>nat retry.
      transport_failure (srv (sent @ replicate j (login_req self)) (login_req self))"
  shows "do_login srv self sent retry =
      (sent @ replicate (Suc (nat retry)) (login_req self), False)"
proof -
  let ?rq = "login_req self"
  from assms have "\<forall>j<nat retry. transport_failure (srv (sent @ replicate j ?rq) ?rq)" by simp
  then have "do_login srv self sent retry =
      do_login srv self (sent @ replicate (nat retry) ?rq) (retry - int (nat retry))"
    by (rule do_login_skip) simp
  also have "\<dots> = ((sent @ replicate (nat retry) ?rq) @ [?rq], False)"
    using assms by (intro do_login_give_up) auto
  finally show ?thesis by (simp add: replicate_append_same)
qed

lemma connect_do_login: "connect srv self sent retry = do_login srv self sent retry"
  by (simp add: connect_def split: prod.splits)

lemma not_transport_failure:
  "\<not> transport_failure out \<longleftrightarrow> (\<exists>st body. out = Response st body)"
  by (cases out) simp_all

text \<open>
  C5. Write attempt \<open>j\<close> for the answer of the server to the login request after \<open>j\<close>
  earlier attempts. \<open>connect\<close> with retry budget \<open>r\<close> succeeds exactly when, for some
  \<open>k \<le> r\<close>, the attempts before \<open>k\<close> fail in the transport and attempt \<open>k\<close> is a
  response with status 302. The first response decides: with \<open>k\<close> failed attempts before
  it, \<open>connect\<close> makes \<open>k + 1\<close> attempts and succeeds only on status 302, so another status
  is never retried. And when the first \<open>r + 1\<close> attempts all fail in the transport,
  \<open>connect\<close> makes \<open>r + 1\<close> attempts and fails. (A negative budget counts as 0.)
\<close>

theorem connect_retry:
  "(snd (connect srv self sent r) \<longleftrightarrow>
      (\<exists>k\<le>nat r.
          (\<forall>j<k. transport_failure (srv (sent @ replicate j (login_req self)) (login_req self)))
        \<and> (\<exists>body. srv (sent @ replicate k (login_req self)) (login_req self)
                     = Response 302 body)))
   \<and> (\<forall>k st body.
         k \<le> nat r
       \<and> (\<forall>j<k. transport_failure (srv (sent @ replicate j (login_req self)) (login_req self)))
       \<and> srv (sent @ replicate k (login_req self)) (login_req self) = Response st body
       \<longrightarrow> connect srv self sent r = (sent @ replicate (Suc k) (login_req self), st = 302))
   \<and> ((\<forall>j\<le>nat r. transport_failure (srv (sent @ replicate j (login_req self)) (login_req self)))
       \<longrightarrow> connect srv self sent r = (sent @ replicate (Suc (nat r)) (login_req self), False))"
  (is "?iff \<and> ?decided \<and> ?exhausted")
proof -
  let ?rq = "login_req self"
  let ?att = "\<lambda>j. srv (sent @ replicate j ?rq) ?rq"
  have decided: ?decided
  proof (intro allI impI)
    fix k st body
    assume h: "k \<le> nat r \<and> (\<forall>j<k. transport_failure (?att j)) \<and> ?att k = Response st body"
    from h have h1: "\<forall>j<k. transport_failure (srv (sent @ replicate j ?rq) ?rq)" by blast
    from h have h2: "k \<le> nat r" by blast
    from h have h3: "srv (sent @ replicate k ?rq) ?rq = Response st body" by blast
    show "connect srv self sent r = (sent @ replicate (Suc k) ?rq, st = 302)"
      unfolding connect_do_login using h1 h2 h3 by (rule do_login_decided)
  qed
  have exhausted: ?exhausted
  proof
    assume "\<forall>j\<le>nat r. transport_failure (?att j)"
    then have "\<forall>j\<le>nat r. transport_failure (srv (sent @ replicate j ?rq) ?rq)" .
    then show "connect srv self sent r = (sent @ replicate (Suc (nat r)) ?rq, False)"
      unfolding connect_do_login by (rule do_login_exhausted)
  qed
  have "?iff"
  proof
    assume ok: "snd (connect srv self sent r)"
    have "\<exists>j\<le>nat r. \<not> transport_failure (?att j)"
    proof (rule ccontr)
      assume "\<not> (\<exists>j\<le>nat r. \<not> transport_failure (?att j))"
      then have "\<forall>j\<le>nat r. transport_failure (?att j)" by blast
      with exhausted ok show False by simp
    qed
    then obtain j where j: "j \<le> nat r" "\<not> transport_failure (?att j)" by blast
    define k where "k = (LEAST i. \<not> transport_failure (?att i))"
    have k1: "\<not> transport_failure (?att k)"
      unfolding k_def using j(2) by (rule LeastI)
    have k2: "k \<le> j" unfolding k_def using j(2) by (rule Least_le)
    have k3: "\<forall>i<k. transport_failure (?att i)"
    proof (intro allI impI)
      fix i assume "i < k"
      then show "transport_failure (?att i)"
        unfolding k_def using not_less_Least by blast
    qed
    from k1 obtain st body where resp: "?att k = Response st body"
      unfolding not_transport_failure by blast
    from k2 j(1) have k4: "k \<le> nat r" by simp
    from k4 k3 resp
    have "k \<le> nat r \<and> (\<forall>j<k. transport_failure (?att j)) \<and> ?att k = Response st body"
      by blast
    with decided have "connect srv self sent r = (sent @ replicate (Suc k) ?rq, st = 302)"
      by (elim allE impE) assumption+
    with ok have "st = 302" by simp
    with resp k3 k4 show "\<exists>k\<le>nat r. (\<forall>j<k. transport_failure (?att j))
        \<and> (\<exists>body. ?att k = Response 302 body)" by blast
  next
    assume "\<exists>k\<le>nat r. (\<forall>j<k. transport_failure (?att j))
        \<and> (\<exists>body. ?att k = Response 302 body)"
    then obtain k body where
      "k \<le> nat r \<and> (\<forall>j<k. transport_failure (?att j)) \<and> ?att k = Response 302 body"
      by blast
    with decided have "connect srv self sent r = (sent @ replicate (Suc k) ?rq, (302::nat) = 302)"
      by (elim allE impE) assumption+
    then show "snd (connect srv self sent r)" by simp
  qed
  with decided exhausted show ?thesis by blast
qed


text \<open>
  The server times out twice and then redirects: with budget 2 the login succeeds after
  exactly 3 attempts, with budget 1 it fails after exactly 2.
\<close>

theorem connect_retry_witness:
  "transport_failure (login_after 2 [] (login_req new_client))
   \<and> transport_failure (login_after 2 [login_req new_client] (login_req new_client))
   \<and> login_after 2 [login_req new_client, login_req new_client] (login_req new_client)
       = Response 302 []
   \<and> connect (login_after 2) new_client [] 2 = (replicate 3 (login_req new_client), True)
   \<and> length (fst (connect (login_after 2) new_client [] 2)) = 3
   \<and> connect (login_after 2) new_client [] 1 = (replicate 2 (login_req new_client), False)
   \<and> length (fst (connect (login_after 2) new_client [] 1)) = 2"
proof -
  let ?rq = "login_req new_client"
  have a: "\<forall>j<2. transport_failure (login_after 2 ([] @ replicate j ?rq) ?rq)"
    by (simp add: login_after_def)
  have b: "login_after 2 ([] @ replicate 2 ?rq) ?rq = Response 302 []"
    by (simp add: login_after_def)
  have c: "\<forall>j\<le>nat 1. transport_failure (login_after 2 ([] @ replicate j ?rq) ?rq)"
    by (simp add: login_after_def)
  note decided = connect_retry [where srv = "login_after 2" and self = new_client
      and sent = "[]" and r = 2, THEN conjunct2, THEN conjunct1, rule_format, of 2 302 "[]"]
  note exhausted = connect_retry [where srv = "login_after 2" and self = new_client
      and sent = "[]" and r = 1, THEN conjunct2, THEN conjunct2, rule_format]
  have two: "connect (login_after 2) new_client [] 2 = ([] @ replicate (Suc 2) ?rq, (302::nat) = 302)"
    using a b by (intro decided conjI) simp_all
  have one: "connect (login_after 2) new_client [] 1 = ([] @ replicate (Suc (nat 1)) ?rq, False)"
    using c by (intro exhausted) simp
  have two': "connect (login_after 2) new_client [] 2 = (replicate 3 ?rq, True)"
    unfolding two by (simp add: numeral_3_eq_3)
  have one': "connect (login_after 2) new_client [] 1 = (replicate 2 ?rq, False)"
    unfolding one by (simp add: numeral_2_eq_2)
  show ?thesis unfolding two' one' by (simp add: login_after_def)
qed


section \<open>Claims about the retry of a POST\<close>

lemma post_request_Timeout_retry:
  "srv sent (post_req lib command payload) = Timeout \<Longrightarrow> 1 \<le> retry \<Longrightarrow>
   post_request lib srv sent command payload retry =
   get_request lib srv (sent @ [post_req lib command payload]) command payload (retry - 1)"
  by (simp add: post_request_def)

lemma post_request_Timeout_last:
  "srv sent (post_req lib command payload) = Timeout \<Longrightarrow> retry < 1 \<Longrightarrow>
   post_request lib srv sent command payload retry =
     (sent @ [post_req lib command payload], JNull)"
  by (simp add: post_request_def)

lemma post_request_ClientError:
  "srv sent (post_req lib command payload) = ClientError \<Longrightarrow>
   post_request lib srv sent command payload retry =
     (sent @ [post_req lib command payload], JNull)"
  by (simp add: post_request_def)

lemma post_request_Response:
  "srv sent (post_req lib command payload) = Response st body \<Longrightarrow>
   post_request lib srv sent command payload retry =
     (sent @ [post_req lib command payload], decode_response lib body)"
  by (simp add: post_request_def)

text \<open>
  C9. When the POST of \<open>_post_request\<close> times out and \<open>retry\<close> is at least 1, the rest of
  the call is \<open>_get_request\<close> with the same command, the same payload and \<open>retry - 1\<close>: the
  request sent next is a GET to the same URL with the same body, and every request after
  it is that GET again.
\<close>

theorem post_request_retries_with_get:
  assumes "srv sent (post_req lib command payload) = Timeout" and "1 \<le> retry"
  shows "post_request lib srv sent command payload retry =
           get_request lib srv (sent @ [post_req lib command payload]) command payload (retry - 1)
       \<and> (\<exists>n. fst (post_request lib srv sent command payload retry) =
                sent @ post_req lib command payload
                  # replicate (Suc n) (get_req lib command payload))
       \<and> meth (get_req lib command payload) = GET
       \<and> meth (post_req lib command payload) = POST
       \<and> url (get_req lib command payload) = url (post_req lib command payload)
       \<and> data (get_req lib command payload) = data (post_req lib command payload)"
proof -
  have eq: "post_request lib srv sent command payload retry =
      get_request lib srv (sent @ [post_req lib command payload]) command payload (retry - 1)"
    using assms by (rule post_request_Timeout_retry)
  from get_request_extends [of lib srv "sent @ [post_req lib command payload]" command payload
      "retry - 1"]
  obtain n where "fst (get_request lib srv (sent @ [post_req lib command payload]) command
      payload (retry - 1)) =
      (sent @ [post_req lib command payload]) @ replicate (Suc n) (get_req lib command payload)"
    by blast
  with eq have "fst (post_request lib srv sent command payload retry) =
      sent @ post_req lib command payload # replicate (Suc n) (get_req lib command payload)"
    by simp
  then show ?thesis using eq by (auto simp: get_req_def post_req_def)
qed

theorem post_request_retries_with_get_witness:
  \<open>post_times_out ''{"status":true}'' []
      (post_req demo_lib ''/api/panelconvector/setState'' (JObj [])) = Timeout
   \<and> (1::int) \<le> 3
   \<and> post_request demo_lib (post_times_out ''{"status":true}'') []
        ''/api/panelconvector/setState'' (JObj []) 3 =
       ([post_req demo_lib ''/api/panelconvector/setState'' (JObj []),
         get_req demo_lib ''/api/panelconvector/setState'' (JObj [])],
        JObj [(''status'', JBool True)])\<close>
proof -
  let ?srv = \<open>post_times_out ''{"status":true}''\<close>
  let ?cmd = "''/api/panelconvector/setState''"
  have t: "?srv [] (post_req demo_lib ?cmd (JObj [])) = Timeout"
    by (simp add: post_times_out_def post_req_def)
  have r: "(1::int) \<le> 3" by simp
  have g: \<open>?srv [post_req demo_lib ?cmd (JObj [])] (get_req demo_lib ?cmd (JObj []))
      = Response 200 ''{"status":true}''\<close>
    by (simp add: post_times_out_def get_req_def)
  have d: \<open>decode_response demo_lib ''{"status":true}'' = JObj [(''status'', JBool True)]\<close>
    by (simp add: decode_response_def demo_lib_def demo_loads_def envelope_def json_quote_def
          STATUS_GOOD_def STATUS_BAD_DATE_def STATUS_NO_DATE_def DEVICES_def)
  from post_request_retries_with_get [where srv = ?srv and sent = "[]" and lib = demo_lib
      and command = ?cmd and payload = "JObj []" and retry = 3, OF t r]
  have "post_request demo_lib ?srv [] ?cmd (JObj []) 3 =
      get_request demo_lib ?srv ([] @ [post_req demo_lib ?cmd (JObj [])]) ?cmd (JObj []) (3 - 1)"
    by blast
  also have "\<dots> = ([post_req demo_lib ?cmd (JObj []), get_req demo_lib ?cmd (JObj [])],
      JObj [(''status'', JBool True)])"
    using get_request_Response [of ?srv "[post_req demo_lib ?cmd (JObj [])]" demo_lib ?cmd
        "JObj []" 200 _ "3 - 1"] g d by simp
  finally show ?thesis using t r by simp
qed


section \<open>Claims about the commands\<close>

text \<open>The acknowledgement test, by the kind of the response.\<close>

lemma status_ok_JNull: "status_ok JNull = Inr False"
  by (simp add: status_ok_def)

lemma status_ok_JObj:
  "status_ok (JObj kv) = Inr (map_of kv ''status'' = Some (JBool True))"
  by (cases "map_of kv ''status''") (auto simp: status_ok_def)

lemma status_ok_True_iff:
  "status_ok resp = Inr True \<longleftrightarrow>
     (\<exists>kv. resp = JObj kv \<and> map_of kv ''status'' = Some (JBool True))"
  by (cases resp) (auto simp: status_ok_def status_ok_JObj split: if_splits)

lemma status_ok_error:
  "status_ok resp = Inl e \<Longrightarrow> e = TypeError \<and> resp \<noteq> JNull \<and> (\<forall>kv. resp \<noteq> JObj kv)"
  by (cases resp) (auto simp: status_ok_def status_ok_JObj split: if_splits)

lemma status_ok_cases:
  "status_ok resp = Inr True \<or> status_ok resp = Inr False \<or> status_ok resp = Inl TypeError"
proof (cases "status_ok resp")
  case (Inl e)
  with status_ok_error [of resp e] show ?thesis by simp
next
  case (Inr b)
  then show ?thesis by (cases b) simp_all
qed

lemma set_temperature_result:
  "set_temperature lib srv sent heater temperature =
     (fst (post_request lib srv sent ''/api/panelconvector/setTemperature''
             (JObj [(''deviceId'', real_device_id heater), (''temperature'', JFloat temperature)])
             3),
      (if status_ok (snd (post_request lib srv sent ''/api/panelconvector/setTemperature''
             (JObj [(''deviceId'', real_device_id heater), (''temperature'', JFloat temperature)])
             3)) = Inr True
       then heater\<lparr>set_temp := Some temperature\<rparr> else heater),
      status_ok (snd (post_request lib srv sent ''/api/panelconvector/setTemperature''
             (JObj [(''deviceId'', real_device_id heater), (''temperature'', JFloat temperature)])
             3)))"
  by (auto simp: set_temperature_def split: prod.splits sum.splits)

lemma set_state_result:
  "set_state lib srv sent heater st =
     (fst (post_request lib srv sent ''/api/panelconvector/setState''
             (JObj [(''deviceId'', real_device_id heater), (''state'', JInt st)]) 3),
      heater,
      status_ok (snd (post_request lib srv sent ''/api/panelconvector/setState''
             (JObj [(''deviceId'', real_device_id heater), (''state'', JInt st)]) 3)))"
  by (auto simp: set_state_def split: prod.splits sum.splits)

text \<open>
  C7, as the code has it. Let \<open>resp\<close> be what \<open>_post_request\<close> returned. The call returns
  \<open>True\<close> exactly when \<open>resp\<close> is a JSON object whose \<open>status\<close> is the boolean \<open>true\<close>, and
  then the heater is the old one with \<open>set_temp\<close> set to the temperature. It returns
  \<open>False\<close> when \<open>resp\<close> is \<open>None\<close> (no response, empty or undecodable body) and when it is
  an object whose \<open>status\<close> is missing or is not \<open>true\<close>. A response that decodes to
  anything but an object gives \<open>False\<close> or raises \<open>TypeError\<close>. Whenever the call does not
  return \<open>True\<close>, the heater is unchanged.
\<close>

theorem set_temperature_outcome:
  assumes "post_request lib srv sent ''/api/panelconvector/setTemperature''
             (JObj [(''deviceId'', real_device_id heater), (''temperature'', JFloat temperature)])
             3 = (sent', resp)"
    and "set_temperature lib srv sent heater temperature = (sent'', heater', res)"
  shows "(res = Inr True \<longleftrightarrow> (\<exists>kv. resp = JObj kv \<and> map_of kv ''status'' = Some (JBool True)))
       \<and> (res = Inr True \<longrightarrow> heater' = heater\<lparr>set_temp := Some temperature\<rparr>)
       \<and> (res \<noteq> Inr True \<longrightarrow> heater' = heater)
       \<and> (resp = JNull \<or> (\<exists>kv. resp = JObj kv \<and> map_of kv ''status'' \<noteq> Some (JBool True))
            \<longrightarrow> res = Inr False)
       \<and> (res = Inr True \<or> res = Inr False \<or> res = Inl TypeError)
       \<and> (res = Inl TypeError \<longrightarrow> resp \<noteq> JNull \<and> (\<forall>kv. resp \<noteq> JObj kv))
       \<and> sent'' = sent'"
proof -
  from assms(2) have r: "res = status_ok resp"
    and h: "heater' = (if status_ok resp = Inr True
                       then heater\<lparr>set_temp := Some temperature\<rparr> else heater)"
    and s: "sent'' = sent'"
    unfolding set_temperature_result assms(1) by auto
  have 1: "res = Inr True \<longleftrightarrow> (\<exists>kv. resp = JObj kv \<and> map_of kv ''status'' = Some (JBool True))"
    unfolding r by (rule status_ok_True_iff)
  have 2: "res = Inr True \<longrightarrow> heater' = heater\<lparr>set_temp := Some temperature\<rparr>"
    unfolding r h by simp
  have 3: "res \<noteq> Inr True \<longrightarrow> heater' = heater"
    unfolding r h by simp
  have 4: "resp = JNull \<or> (\<exists>kv. resp = JObj kv \<and> map_of kv ''status'' \<noteq> Some (JBool True))
      \<longrightarrow> res = Inr False"
    unfolding r by (auto simp: status_ok_JNull status_ok_JObj)
  have 5: "res = Inr True \<or> res = Inr False \<or> res = Inl TypeError"
    unfolding r by (rule status_ok_cases)
  have 6: "res = Inl TypeError \<longrightarrow> resp \<noteq> JNull \<and> (\<forall>kv. resp \<noteq> JObj kv)"
    unfolding r using status_ok_error [of resp TypeError] by blast
  from 1 2 3 4 5 6 s show ?thesis by blast
qed

lemma decode_status_true:
  \<open>decode_response demo_lib ''{"status":true}'' = JObj [(''status'', JBool True)]\<close>
  by (simp add: decode_response_def demo_lib_def demo_loads_def envelope_def json_quote_def
        STATUS_GOOD_def STATUS_BAD_DATE_def STATUS_NO_DATE_def DEVICES_def)

lemma decode_status_false:
  \<open>decode_response demo_lib ''{"status":false}'' = JObj [(''status'', JBool False)]\<close>
  by (simp add: decode_response_def demo_lib_def demo_loads_def envelope_def json_quote_def
        STATUS_GOOD_def STATUS_BAD_DATE_def STATUS_NO_DATE_def DEVICES_def)

lemma decode_five: "decode_response demo_lib ''5'' = JInt 5"
  by (simp add: decode_response_def demo_lib_def demo_loads_def envelope_def json_quote_def
        STATUS_GOOD_def STATUS_BAD_DATE_def STATUS_NO_DATE_def DEVICES_def)

lemma post_request_always:
  "post_request lib (always body) sent command payload retry =
     (sent @ [post_req lib command payload], decode_response lib body)"
  by (rule post_request_Response [where st = 200]) (simp add: always_def)

theorem set_temperature_outcome_witness:
  \<open>post_request demo_lib (always ''{"status":true}'') [] ''/api/panelconvector/setTemperature''
       (JObj [(''deviceId'', real_device_id (heater_n 1)), (''temperature'', JFloat (Fin 21.5))]) 3
     = ([post_req demo_lib ''/api/panelconvector/setTemperature''
           (JObj [(''deviceId'', real_device_id (heater_n 1)), (''temperature'', JFloat (Fin 21.5))])],
        JObj [(''status'', JBool True)])
   \<and> set_temperature demo_lib (always ''{"status":true}'') [] (heater_n 1) (Fin 21.5)
     = ([post_req demo_lib ''/api/panelconvector/setTemperature''
           (JObj [(''deviceId'', real_device_id (heater_n 1)), (''temperature'', JFloat (Fin 21.5))])],
        heater_n 1\<lparr>set_temp := Some (Fin 21.5)\<rparr>, Inr True)
   \<and> post_request demo_lib (always ''{"status":false}'') [] ''/api/panelconvector/setTemperature''
       (JObj [(''deviceId'', real_device_id (heater_n 1)), (''temperature'', JFloat (Fin 21.5))]) 3
     = ([post_req demo_lib ''/api/panelconvector/setTemperature''
           (JObj [(''deviceId'', real_device_id (heater_n 1)), (''temperature'', JFloat (Fin 21.5))])],
        JObj [(''status'', JBool False)])
   \<and> set_temperature demo_lib (always ''{"status":false}'') [] (heater_n 1) (Fin 21.5)
     = ([post_req demo_lib ''/api/panelconvector/setTemperature''
           (JObj [(''deviceId'', real_device_id (heater_n 1)), (''temperature'', JFloat (Fin 21.5))])],
        heater_n 1, Inr False)\<close>
proof -
  let ?payload = "JObj [(''deviceId'', real_device_id (heater_n 1)), (''temperature'', JFloat (Fin 21.5))]"
  let ?rq = "post_req demo_lib ''/api/panelconvector/setTemperature'' ?payload"
  let ?T = \<open>always ''{"status":true}''\<close>
  let ?F = \<open>always ''{"status":false}''\<close>
  have pt: "post_request demo_lib ?T [] ''/api/panelconvector/setTemperature'' ?payload 3
      = ([?rq], JObj [(''status'', JBool True)])"
    by (simp add: post_request_always decode_status_true)
  have pf: "post_request demo_lib ?F [] ''/api/panelconvector/setTemperature'' ?payload 3
      = ([?rq], JObj [(''status'', JBool False)])"
    by (simp add: post_request_always decode_status_false)
  obtain s1 h1 r1 where st: "set_temperature demo_lib ?T [] (heater_n 1) (Fin 21.5) = (s1, h1, r1)"
    by (cases "set_temperature demo_lib ?T [] (heater_n 1) (Fin 21.5)") auto
  obtain s2 h2 r2 where sf: "set_temperature demo_lib ?F [] (heater_n 1) (Fin 21.5) = (s2, h2, r2)"
    by (cases "set_temperature demo_lib ?F [] (heater_n 1) (Fin 21.5)") auto
  from set_temperature_outcome [OF pt st]
  have "r1 = Inr True" "h1 = heater_n 1\<lparr>set_temp := Some (Fin 21.5)\<rparr>" "s1 = [?rq]" by simp_all
  with st have t: "set_temperature demo_lib ?T [] (heater_n 1) (Fin 21.5)
      = ([?rq], heater_n 1\<lparr>set_temp := Some (Fin 21.5)\<rparr>, Inr True)" by simp
  from set_temperature_outcome [OF pf sf]
  have "r2 = Inr False" "h2 = heater_n 1" "s2 = [?rq]" by simp_all
  with sf have f: "set_temperature demo_lib ?F [] (heater_n 1) (Fin 21.5)
      = ([?rq], heater_n 1, Inr False)" by simp
  from pt t pf f show ?thesis by simp
qed

text \<open>
  The claim C7 as it is written fails: the server answers the command with the JSON
  number \<open>5\<close>; \<open>"status" in resp\<close> raises \<open>TypeError\<close>, so the call neither succeeds nor
  returns failure.
\<close>

theorem set_temperature_outcome_counterexample:
  "decode_response demo_lib ''5'' = JInt 5
   \<and> snd (snd (set_temperature demo_lib (always ''5'') [] (heater_n 1) (Fin 21.5))) = Inl TypeError"
  by (simp add: set_temperature_result post_request_always decode_five status_ok_def)

text \<open>
  C8. \<open>set_state\<close> leaves the heater record as it was, the field \<open>state\<close> included,
  whatever the response is; the response shows in the result only, which is \<open>True\<close>
  exactly when the response is a JSON object whose \<open>status\<close> is the boolean \<open>true\<close>.
\<close>

theorem set_state_leaves_heater:
  "fst (snd (set_state lib srv sent heater st)) = heater
   \<and> state (fst (snd (set_state lib srv sent heater st))) = state heater
   \<and> (snd (snd (set_state lib srv sent heater st)) = Inr True \<longleftrightarrow>
        (\<exists>kv. snd (post_request lib srv sent ''/api/panelconvector/setState''
                     (JObj [(''deviceId'', real_device_id heater), (''state'', JInt st)]) 3)
                = JObj kv
             \<and> map_of kv ''status'' = Some (JBool True)))"
  unfolding set_state_result by (simp add: status_ok_True_iff)

theorem set_state_leaves_heater_witness:
  \<open>set_state demo_lib (always ''{"status":true}'') [] (heater_n 1) 1 =
     ([post_req demo_lib ''/api/panelconvector/setState''
         (JObj [(''deviceId'', real_device_id (heater_n 1)), (''state'', JInt 1)])],
      heater_n 1, Inr True)
   \<and> state (heater_n 1) = JInt 0
   \<and> state (fst (snd (set_state demo_lib (always ''{"status":true}'') [] (heater_n 1) 1)))
       = JInt 0\<close>
proof -
  let ?srv = \<open>always ''{"status":true}''\<close>
  have run: "set_state demo_lib ?srv [] (heater_n 1) 1 =
     ([post_req demo_lib ''/api/panelconvector/setState''
         (JObj [(''deviceId'', real_device_id (heater_n 1)), (''state'', JInt 1)])],
      heater_n 1, Inr True)"
    by (simp add: set_state_result post_request_always decode_status_true status_ok_JObj)
  have old: "state (heater_n 1) = JInt 0" by (simp add: heater_n_def)
  from set_state_leaves_heater [of demo_lib ?srv "[]" "heater_n 1" 1] old
  have "state (fst (snd (set_state demo_lib ?srv [] (heater_n 1) 1))) = JInt 0" by simp
  with run old show ?thesis by simp
qed


section \<open>Claims about discovery\<close>

text \<open>The requests of a refresh go to the URL of the heater, never to the device list.\<close>

lemma heater_url_not_device_list:
  "url (get_req lib (heater_command lib h) payload) \<noteq> API_ENDPOINT_1 @ DEVICE_LIST_COMMAND"
  by (simp add: get_req_def heater_command_def DEVICE_LIST_COMMAND_def)

lemma fetch_heater_data_sent:
  "\<exists>n. fst (fetch_heater_data lib srv sent h) =
         sent @ replicate (Suc n) (get_req lib (heater_command lib h) (JObj []))"
proof -
  have "fst (fetch_heater_data lib srv sent h) =
      fst (get_request lib srv sent (heater_command lib h) (JObj []) 3)"
    by (simp add: fetch_heater_data_def split: prod.splits option.splits)
  with get_request_extends [of lib srv sent "heater_command lib h" "JObj []" 3]
  show ?thesis by simp
qed

lemma gather_fetch_sent:
  "\<exists>new. fst (gather_fetch lib srv sent hs) = sent @ new
      \<and> (\<forall>rq\<in>set new. url rq \<noteq> API_ENDPOINT_1 @ DEVICE_LIST_COMMAND)"
proof (induction hs arbitrary: sent)
  case Nil
  then show ?case by simp
next
  case (Cons kh hs)
  obtain k h where kh: "kh = (k, h)" by (cases kh)
  from fetch_heater_data_sent [of lib srv sent h] obtain n where
    n: "fst (fetch_heater_data lib srv sent h) =
          sent @ replicate (Suc n) (get_req lib (heater_command lib h) (JObj []))" by blast
  from Cons.IH [of "fst (fetch_heater_data lib srv sent h)"] obtain new where
    new: "fst (gather_fetch lib srv (fst (fetch_heater_data lib srv sent h)) hs) =
            fst (fetch_heater_data lib srv sent h) @ new"
    and ok: "\<forall>rq\<in>set new. url rq \<noteq> API_ENDPOINT_1 @ DEVICE_LIST_COMMAND" by blast
  let ?all = "replicate (Suc n) (get_req lib (heater_command lib h) (JObj [])) @ new"
  have "fst (gather_fetch lib srv sent (kh # hs)) = sent @ ?all"
    unfolding kh gather_fetch_Cons using new n by simp
  moreover have "\<forall>rq\<in>set ?all. url rq \<noteq> API_ENDPOINT_1 @ DEVICE_LIST_COMMAND"
    using ok heater_url_not_device_list [of lib h "JObj []"] by auto
  ultimately show ?case by blast
qed

lemma get_device_list_sent:
  "\<exists>rest. fst (get_device_list lib srv sent) =
            sent @ get_req lib DEVICE_LIST_COMMAND (JObj []) # rest"
  using get_request_extends [of lib srv sent DEVICE_LIST_COMMAND "JObj []" 3]
  by (auto simp: get_device_list_def)

lemma discover_sent: "fst (discover lib srv self sent) = fst (get_device_list lib srv sent)"
  by (simp add: discover_def split: prod.splits sum.splits)

lemma fetch_all_heaters_empty:
  "heaters self = [] \<Longrightarrow>
   \<exists>rest. fst (fetch_all_heaters lib srv self sent) =
            sent @ get_req lib DEVICE_LIST_COMMAND (JObj []) # rest"
proof -
  assume e: "heaters self = []"
  from get_device_list_sent [of lib srv sent] obtain rest where
    d: "fst (discover lib srv self sent) = sent @ get_req lib DEVICE_LIST_COMMAND (JObj []) # rest"
    unfolding discover_sent by blast
  obtain s1 c1 e1 where dis: "discover lib srv self sent = (s1, c1, e1)"
    by (cases "discover lib srv self sent") auto
  with d have s1: "s1 = sent @ get_req lib DEVICE_LIST_COMMAND (JObj []) # rest" by simp
  show ?thesis
  proof (cases e1)
    case (Some err)
    with e dis s1 show ?thesis by (simp add: fetch_all_heaters_def)
  next
    case None
    from gather_fetch_sent [of lib srv s1 "heaters c1"] obtain new where
      "fst (gather_fetch lib srv s1 (heaters c1)) = s1 @ new" by blast
    with e dis s1 None
    have "fst (fetch_all_heaters lib srv self sent) =
        sent @ get_req lib DEVICE_LIST_COMMAND (JObj []) # (rest @ new)"
      by (auto simp: fetch_all_heaters_def split: prod.splits option.splits)
    then show ?thesis by blast
  qed
qed

text \<open>
  C6. A call of \<open>fetch_all_heaters\<close> on a registry that is not empty leaves the keys of
  the registry as they are, and none of the requests it sends is the device-list request.
  A call on an empty registry starts with the device-list request.
\<close>

theorem discovery_only_when_empty:
  "(heaters self \<noteq> [] \<longrightarrow>
       map fst (heaters (fst (snd (fetch_all_heaters lib srv self sent)))) = map fst (heaters self)
     \<and> (\<exists>new. fst (fetch_all_heaters lib srv self sent) = sent @ new
           \<and> (\<forall>rq\<in>set new. url rq \<noteq> API_ENDPOINT_1 @ DEVICE_LIST_COMMAND)))
   \<and> (heaters self = [] \<longrightarrow>
        (\<exists>rest. fst (fetch_all_heaters lib srv self sent) =
                  sent @ get_req lib DEVICE_LIST_COMMAND (JObj []) # rest
              \<and> url (get_req lib DEVICE_LIST_COMMAND (JObj []))
                  = API_ENDPOINT_1 @ DEVICE_LIST_COMMAND))"
proof (intro conjI impI)
  assume ne: "heaters self \<noteq> []"
  from fetch_all_heaters_populated [OF ne, of lib srv sent]
  have s: "fst (fetch_all_heaters lib srv self sent) = fst (gather_fetch lib srv sent (heaters self))"
    and h: "heaters (fst (snd (fetch_all_heaters lib srv self sent))) =
              fst (snd (gather_fetch lib srv sent (heaters self)))" by simp_all
  show "map fst (heaters (fst (snd (fetch_all_heaters lib srv self sent)))) = map fst (heaters self)"
    unfolding h by (rule gather_fetch_keys)
  show "\<exists>new. fst (fetch_all_heaters lib srv self sent) = sent @ new
      \<and> (\<forall>rq\<in>set new. url rq \<noteq> API_ENDPOINT_1 @ DEVICE_LIST_COMMAND)"
    unfolding s by (rule gather_fetch_sent)
next
  assume e: "heaters self = []"
  from fetch_all_heaters_empty [OF e, of lib srv sent]
  show "\<exists>rest. fst (fetch_all_heaters lib srv self sent) =
                  sent @ get_req lib DEVICE_LIST_COMMAND (JObj []) # rest
              \<and> url (get_req lib DEVICE_LIST_COMMAND (JObj []))
                  = API_ENDPOINT_1 @ DEVICE_LIST_COMMAND"
    by (simp add: get_req_def)
qed

lemma gather_second_fails:
  "gather_fetch demo_lib second_fails sent (heaters demo_client) =
     (sent @ [panel_req ''1'', panel_req ''2'', panel_req ''3''],
      [(JStr ''A1'', refreshed (heater_n 1)),
       (JStr ''A2'', heater_n 2\<lparr>available := Some False\<rparr>),
       (JStr ''A3'', refreshed (heater_n 3))], None)"
  by (simp add: demo_client_def gather_fetch_Cons fetch_second_fails del: gather_fetch.simps(2))

theorem discovery_only_when_empty_witness:
  "map fst (heaters demo_client) = [JStr ''A1'', JStr ''A2'', JStr ''A3'']
   \<and> map fst (heaters (fst (snd (fetch_all_heaters demo_lib second_fails demo_client []))))
       = [JStr ''A1'', JStr ''A2'', JStr ''A3'']
   \<and> fst (fetch_all_heaters demo_lib second_fails demo_client [])
       = [panel_req ''1'', panel_req ''2'', panel_req ''3'']
   \<and> heaters new_client = []
   \<and> hd (fst (fetch_all_heaters demo_lib second_fails new_client []))
       = get_req demo_lib DEVICE_LIST_COMMAND (JObj [])"
proof -
  have ne: "heaters demo_client \<noteq> []" by (simp add: demo_client_def)
  have keys: "map fst (heaters demo_client) = [JStr ''A1'', JStr ''A2'', JStr ''A3'']"
    by (simp add: demo_client_def)
  have e: "heaters new_client = []" by (simp add: new_client_def)
  note inst = discovery_only_when_empty [of demo_client demo_lib second_fails "[]"]
  from inst ne keys
  have k: "map fst (heaters (fst (snd (fetch_all_heaters demo_lib second_fails demo_client []))))
      = [JStr ''A1'', JStr ''A2'', JStr ''A3'']" by simp
  have s: "fst (fetch_all_heaters demo_lib second_fails demo_client [])
      = [panel_req ''1'', panel_req ''2'', panel_req ''3'']"
    using fetch_all_heaters_populated [OF ne, of demo_lib second_fails "[]"]
    by (simp add: gather_second_fails)
  from discovery_only_when_empty [of new_client demo_lib second_fails "[]"] e
  obtain rest where "fst (fetch_all_heaters demo_lib second_fails new_client []) =
      [] @ get_req demo_lib DEVICE_LIST_COMMAND (JObj []) # rest" by blast
  then have "hd (fst (fetch_all_heaters demo_lib second_fails new_client []))
      = get_req demo_lib DEVICE_LIST_COMMAND (JObj [])" by simp
  with keys k s e show ?thesis by simp
qed


section \<open>Claims about the software version\<close>

text \<open>No statement of the refresh assigns \<open>sw_version\<close> or \<open>swVersion\<close>.\<close>

lemma update_availability_sw:
  "sw_version (fst (update_availability lib status h)) = sw_version h
   \<and> swVersion (fst (update_availability lib status h)) = swVersion h"
  by (simp add: update_availability_def split: sum.splits)

lemma update_energy_sw:
  "sw_version (fst (update_energy lib status h)) = sw_version h
   \<and> swVersion (fst (update_energy lib status h)) = swVersion h"
  by (simp add: update_energy_def update_availability_sw split: sum.splits)

lemma update_temps_sw:
  "sw_version (fst (update_temps lib object_json status h)) = sw_version h
   \<and> swVersion (fst (update_temps lib object_json status h)) = swVersion h"
  by (simp add: update_temps_def update_energy_sw split: sum.splits)

lemma update_status_sw:
  "sw_version (fst (update_status lib object_json st h)) = sw_version h
   \<and> swVersion (fst (update_status lib object_json st h)) = swVersion h"
  by (cases st) (simp_all add: update_temps_sw)

lemma update_heater_sw:
  "sw_version (fst (update_heater lib heater_data h)) = sw_version h
   \<and> swVersion (fst (update_heater lib heater_data h)) = swVersion h"
  by (simp add: update_heater_def update_status_sw split: sum.splits)

lemma fetch_heater_data_sw:
  "sw_version (fst (snd (fetch_heater_data lib srv sent h))) = sw_version h
   \<and> swVersion (fst (snd (fetch_heater_data lib srv sent h))) = swVersion h"
proof (cases "snd (get_request lib srv sent (heater_command lib h) (JObj []) 3) = JNull")
  case True
  then have "get_request lib srv sent (heater_command lib h) (JObj []) 3 =
      (fst (get_request lib srv sent (heater_command lib h) (JObj []) 3), JNull)"
    by (simp add: prod_eq_iff)
  from fetch_heater_data_no_payload [OF this] show ?thesis by simp
next
  case False
  have "get_request lib srv sent (heater_command lib h) (JObj []) 3 =
      (fst (get_request lib srv sent (heater_command lib h) (JObj []) 3),
       snd (get_request lib srv sent (heater_command lib h) (JObj []) 3))" by simp
  from fetch_heater_data_payload [OF this False] show ?thesis
    by (simp add: update_heater_sw)
qed

lemma gather_fetch_sw:
  "\<forall>kh\<in>set (fst (snd (gather_fetch lib srv sent hs))).
      \<exists>kh0\<in>set hs. sw_version (snd kh) = sw_version (snd kh0)
                 \<and> swVersion (snd kh) = swVersion (snd kh0)"
proof (induction hs arbitrary: sent)
  case Nil
  then show ?case by simp
next
  case (Cons kh hs)
  obtain k h where kh: "kh = (k, h)" by (cases kh)
  show ?case
    unfolding kh gather_fetch_Cons
    using Cons.IH [of "fst (fetch_heater_data lib srv sent h)"] fetch_heater_data_sw [of lib srv sent h]
    by auto
qed

text \<open>The registry operations put in the registry nothing but what they are given.\<close>

lemma reg_get_in: "reg_get hs k = Some h \<Longrightarrow> \<exists>k'. (k', h) \<in> set hs"
  by (induction hs) (auto split: if_splits)

lemma reg_set_in: "kh \<in> set (reg_set hs k h) \<Longrightarrow> kh \<in> set hs \<or> snd kh = h"
  by (induction hs) (auto split: if_splits)

lemma reg_mutate_in: "kh \<in> set (reg_mutate hs k h) \<Longrightarrow> kh \<in> set hs \<or> snd kh = h"
  by (induction hs) (auto split: if_splits)

lemma reg_mutate_absent: "reg_get hs k = None \<Longrightarrow> reg_mutate hs k h = hs"
  by (induction hs) (auto split: if_splits)

text \<open>
  A round of the discovery loop keeps this true of every heater of the registry: the
  field \<open>sw_version\<close> is \<open>None\<close> and the attribute \<open>swVersion\<close> exists.
\<close>

lemma discover_device_sw:
  assumes "\<forall>kh\<in>set hs. sw_version (snd kh) = None \<and> swVersion (snd kh) \<noteq> None"
  shows "\<forall>kh\<in>set (fst (discover_device lib hs device)).
           sw_version (snd kh) = None \<and> swVersion (snd kh) \<noteq> None"
proof (cases device)
  case (JObj d)
  let ?rid = "dget d ''realDeviceId''"
  show ?thesis
  proof (cases "py_eq (dget d ''deviceType'') (JInt ELDOM_DEVICE_TYPE_HEATER) \<and> hashable ?rid")
    case False
    with JObj assms show ?thesis by (auto simp: discover_device_def Let_def)
  next
    case True
    show ?thesis
    proof (cases "reg_get hs ?rid")
      case None
      with JObj True assms show ?thesis
        by (auto simp: discover_device_def Let_def new_Heater_def reg_mutate_absent
              split: sum.splits dest!: reg_set_in)
    next
      case (Some h0)
      from reg_get_in [OF Some] assms
      have "sw_version h0 = None \<and> swVersion h0 \<noteq> None" by auto
      with JObj True Some assms show ?thesis
        by (auto simp: discover_device_def Let_def
              split: sum.splits dest!: reg_set_in reg_mutate_in)
    qed
  qed
qed (use assms in \<open>simp_all add: discover_device_def\<close>)

lemma discover_loop_sw:
  "\<forall>kh\<in>set hs. sw_version (snd kh) = None \<and> swVersion (snd kh) \<noteq> None \<Longrightarrow>
   \<forall>kh\<in>set (fst (discover_loop lib hs ds)).
      sw_version (snd kh) = None \<and> swVersion (snd kh) \<noteq> None"
proof (induction ds arbitrary: hs)
  case Nil
  then show ?case by simp
next
  case (Cons device rest)
  from discover_device_sw [OF Cons.prems, of lib device]
  have step: "\<forall>kh\<in>set (fst (discover_device lib hs device)).
      sw_version (snd kh) = None \<and> swVersion (snd kh) \<noteq> None" .
  show ?case
  proof (cases "snd (discover_device lib hs device)")
    case None
    then have "discover_loop lib hs (device # rest) =
        discover_loop lib (fst (discover_device lib hs device)) rest"
      by (auto split: prod.splits option.splits)
    with Cons.IH [OF step] show ?thesis by simp
  next
    case (Some e)
    then have "fst (discover_loop lib hs (device # rest)) = fst (discover_device lib hs device)"
      by (auto split: prod.splits option.splits)
    with step show ?thesis by simp
  qed
qed

lemma discover_sw:
  "\<forall>kh\<in>set (heaters (fst (snd (discover lib srv self sent)))).
      sw_version (snd kh) = None \<and> swVersion (snd kh) \<noteq> None"
proof -
  have "heaters (fst (snd (discover lib srv self sent))) = []
      \<or> (\<exists>ds. heaters (fst (snd (discover lib srv self sent))) = fst (discover_loop lib [] ds))"
  proof (cases "get_device_list lib srv sent")
    case (Pair s1 device_list)
    show ?thesis
    proof (cases "device_list \<noteq> JNull \<and> (\<exists>ds. py_iter device_list = Inr ds)")
      case True
      then obtain ds where "py_iter device_list = Inr ds" by blast
      with True Pair
      have "heaters (fst (snd (discover lib srv self sent))) = fst (discover_loop lib [] ds)"
        by (simp add: discover_def split: prod.splits)
      then show ?thesis by blast
    next
      case False
      with Pair have "heaters (fst (snd (discover lib srv self sent))) = []"
        by (cases "py_iter device_list") (auto simp: discover_def)
      then show ?thesis by blast
    qed
  qed
  then show ?thesis
  proof
    assume "heaters (fst (snd (discover lib srv self sent))) = []"
    then show ?thesis by simp
  next
    assume "\<exists>ds. heaters (fst (snd (discover lib srv self sent))) = fst (discover_loop lib [] ds)"
    then obtain ds where
      ds: "heaters (fst (snd (discover lib srv self sent))) = fst (discover_loop lib [] ds)" by blast
    have "\<forall>kh\<in>set (fst (discover_loop lib [] ds)).
        sw_version (snd kh) = None \<and> swVersion (snd kh) \<noteq> None"
      by (rule discover_loop_sw) simp
    then show ?thesis unfolding ds .
  qed
qed

lemma fetch_all_heaters_sw:
  assumes "heaters self \<noteq> [] \<longrightarrow> (\<forall>kh\<in>set (heaters self). P (sw_version (snd kh)) (swVersion (snd kh)))"
    and "heaters self = [] \<longrightarrow>
      (\<forall>kh\<in>set (heaters (fst (snd (discover lib srv self sent)))).
          P (sw_version (snd kh)) (swVersion (snd kh)))"
  shows "\<forall>kh\<in>set (heaters (fst (snd (fetch_all_heaters lib srv self sent)))).
           P (sw_version (snd kh)) (swVersion (snd kh))"
proof (cases "heaters self = []")
  case False
  from fetch_all_heaters_populated [OF False, of lib srv sent]
  have "heaters (fst (snd (fetch_all_heaters lib srv self sent))) =
      fst (snd (gather_fetch lib srv sent (heaters self)))" by simp
  with gather_fetch_sw [of lib srv sent "heaters self"] assms(1) False
  show ?thesis by fastforce
next
  case True
  obtain s1 c1 e1 where dis: "discover lib srv self sent = (s1, c1, e1)"
    by (cases "discover lib srv self sent") auto
  with assms(2) True have c1: "\<forall>kh\<in>set (heaters c1). P (sw_version (snd kh)) (swVersion (snd kh))"
    by simp
  show ?thesis
  proof (cases e1)
    case (Some e)
    with True dis c1 show ?thesis by (simp add: fetch_all_heaters_def)
  next
    case None
    with True dis have "heaters (fst (snd (fetch_all_heaters lib srv self sent))) =
        fst (snd (gather_fetch lib srv s1 (heaters c1)))"
      by (auto simp: fetch_all_heaters_def split: prod.splits option.splits)
    with gather_fetch_sw [of lib srv s1 "heaters c1"] c1 show ?thesis by fastforce
  qed
qed

text \<open>
  C10. If \<open>sw_version\<close> is \<open>None\<close> for every heater of the registry (as it is in the empty
  registry of a new client), it still is after \<open>fetch_all_heaters\<close>, discovery included.
  Discovery from the empty registry leaves every heater it registers with \<open>sw_version\<close>
  \<open>None\<close> and with the attribute \<open>swVersion\<close> created. And \<open>fetch_heater_data\<close>,
  \<open>set_temperature\<close> and \<open>set_state\<close> leave \<open>sw_version\<close> as it is.
\<close>

theorem sw_version_never_set:
  "((\<forall>kh\<in>set (heaters self). sw_version (snd kh) = None) \<longrightarrow>
      (\<forall>kh\<in>set (heaters (fst (snd (fetch_all_heaters lib srv self sent)))).
          sw_version (snd kh) = None))
   \<and> (heaters self = [] \<longrightarrow>
        (\<forall>kh\<in>set (heaters (fst (snd (fetch_all_heaters lib srv self sent)))).
            sw_version (snd kh) = None \<and> swVersion (snd kh) \<noteq> None))
   \<and> sw_version (fst (snd (fetch_heater_data lib srv sent h))) = sw_version h
   \<and> sw_version (fst (snd (set_temperature lib srv sent h t))) = sw_version h
   \<and> sw_version (fst (snd (set_state lib srv sent h st))) = sw_version h
   \<and> sw_version new_Heater = None"
proof (intro conjI impI)
  assume inv: "\<forall>kh\<in>set (heaters self). sw_version (snd kh) = None"
  show "\<forall>kh\<in>set (heaters (fst (snd (fetch_all_heaters lib srv self sent)))).
      sw_version (snd kh) = None"
    using inv discover_sw [of lib srv self sent]
    by (intro fetch_all_heaters_sw [where P = "\<lambda>v a. v = None"]) auto
next
  assume e: "heaters self = []"
  show "\<forall>kh\<in>set (heaters (fst (snd (fetch_all_heaters lib srv self sent)))).
      sw_version (snd kh) = None \<and> swVersion (snd kh) \<noteq> None"
    using e discover_sw [of lib srv self sent]
    by (intro fetch_all_heaters_sw [where P = "\<lambda>v a. v = None \<and> a \<noteq> None"]) auto
next
  show "sw_version (fst (snd (fetch_heater_data lib srv sent h))) = sw_version h"
    by (simp add: fetch_heater_data_sw)
  show "sw_version (fst (snd (set_temperature lib srv sent h t))) = sw_version h"
    by (simp add: set_temperature_result)
  show "sw_version (fst (snd (set_state lib srv sent h st))) = sw_version h"
    by (simp add: set_state_result)
  show "sw_version new_Heater = None" by (simp add: new_Heater_def)
qed

lemma fetch_second_fails_id1:
  "id' h = JInt 1 \<Longrightarrow>
   fetch_heater_data demo_lib second_fails sent h =
     (sent @ [panel_req ''1''], refreshed h, Inr True)"
  by (simp add: fetch_heater_data_def heater_command_def demo_lib_def [THEN arg_cong, of str_of]
        demo_str_def get_request_second_fails update_heater_good)

lemma decode_devices: "decode_response demo_lib DEVICES = devices"
  by (simp add: decode_response_def demo_lib_def demo_loads_def envelope_def json_quote_def
        STATUS_GOOD_def STATUS_BAD_DATE_def STATUS_NO_DATE_def DEVICES_def)

lemma discover_new_client:
  "discover demo_lib second_fails new_client [] =
     ([get_req demo_lib DEVICE_LIST_COMMAND (JObj [])],
      new_client\<lparr>heaters :=
        [(JStr ''A1'',
          new_Heater\<lparr>hw_version := Some ''14'', id' := JInt 1, available := Some False,
                     name := JStr ''Hall'', real_device_id := JStr ''A1'',
                     swVersion := Some (JStr ''1.2'')\<rparr>)]\<rparr>, None)"
proof -
  have srv: "second_fails [] (get_req demo_lib DEVICE_LIST_COMMAND (JObj [])) = Response 200 DEVICES"
    by (simp add: second_fails_def get_req_def API_ENDPOINT_1_def DEVICE_LIST_COMMAND_def)
  have gl: "get_device_list demo_lib second_fails [] =
      ([get_req demo_lib DEVICE_LIST_COMMAND (JObj [])], devices)"
    unfolding get_device_list_def
    using get_request_Response [where srv = second_fails and sent = "[]" and lib = demo_lib
        and command = DEVICE_LIST_COMMAND and payload = "JObj []" and retry = 3, OF srv]
      decode_devices by simp
  have str14: "str_of demo_lib (JInt 14) = ''14''" by (simp add: demo_lib_def demo_str_def)
  have loop: "discover_loop demo_lib []
      [JObj [(''deviceType'', JInt 4), (''realDeviceId'', JStr ''A1''), (''id'', JInt 1),
             (''name'', JStr ''Hall''), (''hwVersion'', JInt 14), (''swVersion'', JStr ''1.2'')]] =
      ([(JStr ''A1'',
          new_Heater\<lparr>hw_version := Some ''14'', id' := JInt 1, available := Some False,
                     name := JStr ''Hall'', real_device_id := JStr ''A1'',
                     swVersion := Some (JStr ''1.2'')\<rparr>)], None)"
    by (simp add: discover_device_def dget_def py_eq_def float_eq_def
          ELDOM_DEVICE_TYPE_HEATER_def str14 Let_def)
  show ?thesis
    unfolding discover_def gl using loop by (simp add: devices_def)
qed

theorem sw_version_never_set_witness:
  "heaters new_client = []
   \<and> heaters (fst (snd (fetch_all_heaters demo_lib second_fails new_client []))) =
       [(JStr ''A1'',
         refreshed (new_Heater\<lparr>hw_version := Some ''14'', id' := JInt 1,
                      available := Some False, name := JStr ''Hall'',
                      real_device_id := JStr ''A1'', swVersion := Some (JStr ''1.2'')\<rparr>))]
   \<and> sw_version (refreshed (new_Heater\<lparr>hw_version := Some ''14'', id' := JInt 1,
                      available := Some False, name := JStr ''Hall'',
                      real_device_id := JStr ''A1'', swVersion := Some (JStr ''1.2'')\<rparr>)) = None
   \<and> swVersion (refreshed (new_Heater\<lparr>hw_version := Some ''14'', id' := JInt 1,
                      available := Some False, name := JStr ''Hall'',
                      real_device_id := JStr ''A1'', swVersion := Some (JStr ''1.2'')\<rparr>))
       = Some (JStr ''1.2'')
   \<and> map (\<lambda>kh. sw_version (snd kh)) (heaters demo_client) = [None, None, None]
   \<and> map (\<lambda>kh. sw_version (snd kh))
        (heaters (fst (snd (fetch_all_heaters demo_lib second_fails demo_client []))))
       = [None, None, None]"
proof -
  let ?h = "new_Heater\<lparr>hw_version := Some ''14'', id' := JInt 1,
                      available := Some False, name := JStr ''Hall'',
                      real_device_id := JStr ''A1'', swVersion := Some (JStr ''1.2'')\<rparr>"
  have e: "heaters new_client = []" by (simp add: new_client_def)
  have run: "heaters (fst (snd (fetch_all_heaters demo_lib second_fails new_client []))) =
      [(JStr ''A1'', refreshed ?h)]"
    using e discover_new_client fetch_second_fails_id1 [of ?h]
    by (simp add: fetch_all_heaters_def gather_fetch_Cons del: gather_fetch.simps(2))
  from sw_version_never_set [of new_client demo_lib second_fails "[]"] e
  have "\<forall>kh\<in>set (heaters (fst (snd (fetch_all_heaters demo_lib second_fails new_client [])))).
      sw_version (snd kh) = None \<and> swVersion (snd kh) \<noteq> None" by blast
  then have sw: "sw_version (refreshed ?h) = None" unfolding run by simp
  have attr: "swVersion (refreshed ?h) = Some (JStr ''1.2'')" by (simp add: refreshed_def)
  have before: "map (\<lambda>kh. sw_version (snd kh)) (heaters demo_client) = [None, None, None]"
    by (simp add: demo_client_def heater_n_def new_Heater_def)
  then have inv: "\<forall>kh\<in>set (heaters demo_client). sw_version (snd kh) = None"
    by (simp add: demo_client_def)
  have ne: "heaters demo_client \<noteq> []" by (simp add: demo_client_def)
  have after: "heaters (fst (snd (fetch_all_heaters demo_lib second_fails demo_client []))) =
      [(JStr ''A1'', refreshed (heater_n 1)),
       (JStr ''A2'', heater_n 2\<lparr>available := Some False\<rparr>),
       (JStr ''A3'', refreshed (heater_n 3))]"
    using fetch_all_heaters_populated [OF ne, of demo_lib second_fails "[]"]
    by (simp add: gather_second_fails)
  from sw_version_never_set [of demo_client demo_lib second_fails "[]"] inv
  have "\<forall>kh\<in>set (heaters (fst (snd (fetch_all_heaters demo_lib second_fails demo_client [])))).
      sw_version (snd kh) = None" by blast
  then have "map (\<lambda>kh. sw_version (snd kh))
      (heaters (fst (snd (fetch_all_heaters demo_lib second_fails demo_client []))))
      = [None, None, None]"
    unfolding after by simp
  with e run sw attr before show ?thesis by simp
qed


end
